theory Spec2Isabelle
  imports Main "HOL-Library.Sublist"
begin

section \<open>Strings and character classes\<close>

text \<open>
  JavaScript strings are modelled as \<open>string\<close> (lists of 8-bit characters): every code
  unit of the inputs considered is below 256. The character classes are the ones the
  regular expressions and \<open>String.prototype.trim\<close> of the source use, cut to that range.
\<close>

definition isSpaceChar :: "char \<Rightarrow> bool" where
  \<comment> \<open>\<open>\s\<close>, and the characters \<open>trim\<close> removes: TAB, LF, VT, FF, CR, SP, NBSP\<close>
  "isSpaceChar c \<longleftrightarrow>
     c \<in> set [CHR 0x09, CHR 0x0A, CHR 0x0B, CHR 0x0C, CHR 0x0D, CHR 0x20, CHR 0xA0]"

definition isLineTerminator :: "char \<Rightarrow> bool" where
  \<comment> \<open>the characters \<open>.\<close> does not match\<close>
  "isLineTerminator c \<longleftrightarrow> c = CHR 0x0A \<or> c = CHR 0x0D"

definition isQuote :: "char \<Rightarrow> bool" where
  \<comment> \<open>\<open>['"]\<close>\<close>
  "isQuote c \<longleftrightarrow> c = CHR 0x27 \<or> c = CHR 0x22"

definition isNameChar :: "char \<Rightarrow> bool" where
  \<comment> \<open>\<open>[a-zA-Z0-9_-]\<close>\<close>
  "isNameChar c \<longleftrightarrow>
     c \<in> set ''abcdefghijklmnopqrstuvwxyzABCDEFGHIJKLMNOPQRSTUVWXYZ0123456789_-''"

definition trim :: "string \<Rightarrow> string" where
  "trim s = rev (dropWhile isSpaceChar (rev (dropWhile isSpaceChar s)))"

definition slice0 :: "string \<Rightarrow> nat \<Rightarrow> string" where
  \<comment> \<open>\<open>s.slice(0, -k)\<close>: all but the last \<open>k\<close> characters, empty when \<open>s\<close> is shorter\<close>
  "slice0 s k = take (length s - k) s"

section \<open>The path module (POSIX flavour)\<close>

fun splitOn :: "char \<Rightarrow> string \<Rightarrow> string list" where
  "splitOn c [] = [[]]"
| "splitOn c (x # xs) =
     (let r = splitOn c xs in if x = c then [] # r else (x # hd r) # tl r)"

fun joinSlash :: "string list \<Rightarrow> string" where
  "joinSlash [] = []"
| "joinSlash [s] = s"
| "joinSlash (s # t # ss) = s @ CHR ''/'' # joinSlash (t # ss)"

definition isAbsolute :: "string \<Rightarrow> bool" where
  "isAbsolute p \<longleftrightarrow> (case p of [] \<Rightarrow> False | c # _ \<Rightarrow> c = CHR ''/'')"

definition basename :: "string \<Rightarrow> string" where
  \<comment> \<open>trailing separators are dropped, then the part after the last separator is taken\<close>
  "basename p =
     rev (takeWhile (\<lambda>c. c \<noteq> CHR ''/'') (dropWhile (\<lambda>c. c = CHR ''/'') (rev p)))"

definition extname :: "string \<Rightarrow> string" where
  \<comment> \<open>from the last dot of the last path segment; empty when there is no dot, when the
      dot is the first character of the segment, or when the segment is \<open>..\<close>\<close>
  "extname p =
     (let seg = basename p in
      if CHR ''.'' \<notin> set seg then []
      else
        let ext = CHR ''.'' # rev (takeWhile (\<lambda>c. c \<noteq> CHR ''.'') (rev seg));
            stem = take (length seg - length ext) seg
        in if stem = [] \<or> seg = ''..'' then [] else ext)"

definition dirname :: "string \<Rightarrow> string" where
  "dirname p =
     (case p of
        [] \<Rightarrow> ''.''
      | c # body \<Rightarrow>
          let hasRoot = (c = CHR ''/'');
              r = dropWhile (\<lambda>c. c \<noteq> CHR ''/'') (dropWhile (\<lambda>c. c = CHR ''/'') (rev body))
          in if r = [] then (if hasRoot then ''/'' else ''.'')
             else if hasRoot \<and> length r = 1 then ''//''
             else take (length r) p)"

fun normalizeSegs :: "bool \<Rightarrow> string list \<Rightarrow> string list \<Rightarrow> string list" where
  \<comment> \<open>\<open>normalizeString\<close>: the result so far is kept reversed in the accumulator\<close>
  "normalizeSegs allowAboveRoot acc [] = rev acc"
| "normalizeSegs allowAboveRoot acc (s # ss) =
     (if s = [] \<or> s = ''.'' then normalizeSegs allowAboveRoot acc ss
      else if s = ''..'' then
        (case acc of
           [] \<Rightarrow> normalizeSegs allowAboveRoot (if allowAboveRoot then [''..''] else []) ss
         | a # as \<Rightarrow>
             if a = ''..'' then
               normalizeSegs allowAboveRoot (if allowAboveRoot then ''..'' # acc else acc) ss
             else normalizeSegs allowAboveRoot as ss)
      else normalizeSegs allowAboveRoot (s # acc) ss)"

definition normalize :: "string \<Rightarrow> string" where
  "normalize p =
     (if p = [] then ''.''
      else
        let isAbs = isAbsolute p;
            trailingSeparator = (last p = CHR ''/'');
            s = joinSlash (normalizeSegs (\<not> isAbs) [] (splitOn CHR ''/'' p))
        in if s = [] then (if isAbs then ''/'' else if trailingSeparator then ''./'' else ''.'')
           else (if isAbs then ''/'' else []) @ s @ (if trailingSeparator then ''/'' else []))"

definition join :: "string \<Rightarrow> string \<Rightarrow> string" where
  \<comment> \<open>\<open>path.join(a, b)\<close>: the non-empty arguments joined by a separator, then normalised\<close>
  "join a b =
     (let parts = filter (\<lambda>s. s \<noteq> []) [a, b]
      in if parts = [] then ''.'' else normalize (joinSlash parts))"

definition resolveSegs :: "string \<Rightarrow> string \<Rightarrow> string list" where
  \<comment> \<open>the segments of \<open>path.resolve(p)\<close> in working directory \<open>wd\<close> (an absolute path)\<close>
  "resolveSegs wd p =
     normalizeSegs False [] (splitOn CHR ''/'' (if isAbsolute p then p else wd @ CHR ''/'' # p))"

fun stripCommon :: "string list \<Rightarrow> string list \<Rightarrow> string list \<times> string list" where
  "stripCommon (x # xs) (y # ys) = (if x = y then stripCommon xs ys else (x # xs, y # ys))"
| "stripCommon xs ys = (xs, ys)"

definition relative :: "string \<Rightarrow> string \<Rightarrow> string \<Rightarrow> string" where
  \<comment> \<open>\<open>path.relative(from, to)\<close> in working directory \<open>wd\<close>\<close>
  "relative wd from to =
     (if from = to then []
      else
        let (fs, ts) = stripCommon (resolveSegs wd from) (resolveSegs wd to)
        in joinSlash (replicate (length fs) ''..'' @ ts))"

section \<open>Import Rewriter\<close>

datatype error =
    ModuleNotFound string
  | EngineError string
  | FsError string string
  | ProcessExited "int option"
  | SpawnFailed string

datatype logline =
    ImportError string string
  | CompileError string error
  | ChangeDetected string
  | NoOutputChange string
  | RunningBuild string
  | BuildComplete nat
  | Watching string
  | InitialScanComplete
  | WatcherErrorLine error

datatype fsop = Mkdir string | WriteFile string

text \<open>
  What the program reads but does not own: the working directory, the module resolver of the
  runtime (\<open>require.resolve(request, {paths: [dir]})\<close>), the transformation engine
  (\<open>transformFile\<close>, from source path and options to code and optional source map), the
  operating system refusing a directory creation or a file write, the file enumerator
  (\<open>glob(pattern, {ignore})\<close>) and the pattern matcher (\<open>micromatch.isMatch\<close>).
\<close>

record 'o env =
  cwd :: string
  requireResolve :: "string \<Rightarrow> string \<Rightarrow> error + string"
  transformFile :: "string \<Rightarrow> 'o \<Rightarrow> error + string \<times> string option"
  fsFault :: "fsop \<Rightarrow> error option"
  glob :: "string \<Rightarrow> string list \<Rightarrow> string list"
  isMatch :: "string \<Rightarrow> string list \<Rightarrow> bool"

fun firstResolved :: "(string \<Rightarrow> error + string) \<Rightarrow> error \<Rightarrow> string list \<Rightarrow> error + string" where
  \<comment> \<open>the loop of \<open>resolve\<close>: the first candidate that resolves, else the last error\<close>
  "firstResolved rr e [] = Inl e"
| "firstResolved rr e (p # ps) =
     (case rr p of Inr r \<Rightarrow> Inr r | Inl e' \<Rightarrow> firstResolved rr e' ps)"

definition resolve :: "'o env \<Rightarrow> string \<Rightarrow> string \<Rightarrow> error + string" where
  \<comment> \<open>the error the loop starts with is never thrown: the list of candidates is not empty\<close>
  "resolve env importPath fileBeingCompiled =
     firstResolved (\<lambda>p. requireResolve env p (dirname fileBeingCompiled))
       (ModuleNotFound importPath)
       [importPath, importPath @ ''.ts'', importPath @ ''.tsx'', importPath @ ''.js'']"

definition isPackageName :: "string \<Rightarrow> bool" where
  \<comment> \<open>\<open>/^(?:@[a-zA-Z0-9_-]+\/)?[a-zA-Z0-9_-]+$/\<close>\<close>
  "isPackageName s =
     (case s of
        [] \<Rightarrow> False
      | c # rest \<Rightarrow>
          if c = CHR ''@'' then
            (let scope = takeWhile (\<lambda>c. c \<noteq> CHR ''/'') rest;
                 after = dropWhile (\<lambda>c. c \<noteq> CHR ''/'') rest
             in scope \<noteq> [] \<and> list_all isNameChar scope \<and>
                (case after of [] \<Rightarrow> False | _ # pkg \<Rightarrow> pkg \<noteq> [] \<and> list_all isNameChar pkg))
          else list_all isNameChar s)"

fun inNodeModulesFrom :: "string \<Rightarrow> bool" where
  \<comment> \<open>two characters other than line terminators, a separator, then \<open>node_modules/\<close>,
      starting anywhere\<close>
  "inNodeModulesFrom [] = False"
| "inNodeModulesFrom (a # s) =
     ((case s of
         b # c # t \<Rightarrow> \<not> isLineTerminator a \<and> \<not> isLineTerminator b \<and> c = CHR ''/'' \<and>
                      prefix ''node_modules/'' t
       | _ \<Rightarrow> False)
      \<or> inNodeModulesFrom s)"

definition inNodeModules :: "string \<Rightarrow> bool" where
  \<comment> \<open>\<open>/(?:^|..\/)+node_modules\//\<close>\<close>
  "inNodeModules s \<longleftrightarrow> prefix ''node_modules/'' s \<or> inNodeModulesFrom s"

definition resolveAndFixImport :: "'o env \<Rightarrow> string \<Rightarrow> string \<Rightarrow> logline \<times> error + string" where
  \<comment> \<open>\<open>Inl (l, e)\<close>: the line \<open>l\<close> was printed by \<open>console.error\<close> and \<open>e\<close> rethrown\<close>
  "resolveAndFixImport env importPath fileBeingCompiled =
     (if extname importPath = ''.json'' then Inr importPath
      else if isPackageName importPath then Inr importPath
      else
        case resolve env importPath fileBeingCompiled of
          Inl e \<Rightarrow> Inl (ImportError importPath fileBeingCompiled, e)
        | Inr resolvedPath \<Rightarrow>
            if \<not> isAbsolute resolvedPath then Inr importPath
            else
              let relativeToCwd = relative (cwd env) (cwd env) resolvedPath in
              if inNodeModules relativeToCwd then Inr importPath
              else
                let resolvedBasename = basename resolvedPath in
                if resolvedBasename = ''index.js'' \<or> resolvedBasename = ''index.ts''
                then Inr (importPath @ ''/index.js'')
                else if extname importPath \<in> set [''.ts'', ''.tsx'']
                then Inr (slice0 importPath 3 @ ''.js'')
                else Inr (importPath @ ''.js''))"

section \<open>File Compiler\<close>

text \<open>
  The two rewriting passes use the regular expressions
  \<^verbatim>\<open>/(import[\s\S]*?from\s+)(['"])(.*?)(['"]\s*;)/g\<close> and
  \<^verbatim>\<open>/(require\s*\(\s*)(['"])(.*?)(['"]\s*\))/g\<close>. A matcher returns the four groups
  and the text after the match. The lazy quantifiers are tried shortest first; the greedy
  \<open>\s\<close> runs take all the white space there is, since what follows them is never white
  space.
\<close>

fun matchSpecifier :: "char \<Rightarrow> string \<Rightarrow> (string \<times> string \<times> string) option" where
  \<comment> \<open>groups 3 and 4, \<open>(.*?)(['"]\s*t)\<close> with \<open>t\<close> the closing \<open>;\<close> or \<open>)\<close>\<close>
  "matchSpecifier t [] = None"
| "matchSpecifier t (c # cs) =
     (let after = dropWhile isSpaceChar cs
      in if isQuote c \<and> after \<noteq> [] \<and> hd after = t
         then Some ([], c # takeWhile isSpaceChar cs @ [t], tl after)
         else if isLineTerminator c then None
         else map_option (\<lambda>(p, close, rest). (c # p, close, rest)) (matchSpecifier t cs))"

definition matchQuoted :: "char \<Rightarrow> string \<Rightarrow> (char \<times> string \<times> string \<times> string) option" where
  \<comment> \<open>groups 2 to 4: the opening quote, then the specifier and the closing\<close>
  "matchQuoted t s =
     (case s of
        [] \<Rightarrow> None
      | q # s' \<Rightarrow>
          if isQuote q
          then map_option (\<lambda>(p, close, rest). (q, p, close, rest)) (matchSpecifier t s')
          else None)"

definition matchFrom :: "string \<Rightarrow> (string \<times> char \<times> string \<times> string \<times> string) option" where
  \<comment> \<open>\<open>from\s+\<close> and the groups after it\<close>
  "matchFrom s =
     (if prefix ''from'' s \<and> takeWhile isSpaceChar (drop 4 s) \<noteq> []
      then map_option (\<lambda>(q, p, close, rest). (''from'' @ takeWhile isSpaceChar (drop 4 s), q, p, close, rest))
             (matchQuoted CHR '';'' (dropWhile isSpaceChar (drop 4 s)))
      else None)"

fun matchImportTail :: "string \<Rightarrow> (string \<times> char \<times> string \<times> string \<times> string) option" where
  \<comment> \<open>\<open>[\s\S]*?\<close>: the nearest \<open>from\<close> after which the rest matches\<close>
  "matchImportTail [] = matchFrom []"
| "matchImportTail (c # cs) =
     (case matchFrom (c # cs) of
        Some m \<Rightarrow> Some m
      | None \<Rightarrow> map_option (\<lambda>(pre, m). (c # pre, m)) (matchImportTail cs))"

definition matchImport :: "string \<Rightarrow> (string \<times> char \<times> string \<times> string \<times> string) option" where
  "matchImport s =
     (if prefix ''import'' s
      then map_option (\<lambda>(pre, m). (''import'' @ pre, m)) (matchImportTail (drop 6 s))
      else None)"

definition matchRequire :: "string \<Rightarrow> (string \<times> char \<times> string \<times> string \<times> string) option" where
  "matchRequire s =
     (if prefix ''require'' s then
        (let s1 = drop 7 s; w1 = takeWhile isSpaceChar s1; s2 = dropWhile isSpaceChar s1
         in case s2 of
              [] \<Rightarrow> None
            | c # s3 \<Rightarrow>
                if c = CHR ''(''
                then map_option
                       (\<lambda>(q, p, close, rest).
                          (''require'' @ w1 @ ''('' @ takeWhile isSpaceChar s3, q, p, close, rest))
                       (matchQuoted CHR '')'' (dropWhile isSpaceChar s3))
                else None)
      else None)"

datatype pattern = ImportFrom | RequireCall

definition matchAt :: "pattern \<Rightarrow> string \<Rightarrow> (string \<times> char \<times> string \<times> string \<times> string) option" where
  "matchAt pat s = (case pat of ImportFrom \<Rightarrow> matchImport s | RequireCall \<Rightarrow> matchRequire s)"

lemma matchSpecifier_shorter:
  "matchSpecifier t s = Some (p, close, rest) \<Longrightarrow> length rest < length s"
proof (induction s arbitrary: p)
  case Nil
  then show ?case by simp
next
  case (Cons c cs)
  show ?case
  proof (cases "isQuote c \<and> dropWhile isSpaceChar cs \<noteq> [] \<and> hd (dropWhile isSpaceChar cs) = t")
    case True
    with Cons.prems have "rest = tl (dropWhile isSpaceChar cs)" by (simp add: Let_def)
    moreover have "length (dropWhile isSpaceChar cs) \<le> length cs" by (rule length_dropWhile_le)
    ultimately show ?thesis by simp
  next
    case False
    with Cons.prems obtain p' where "matchSpecifier t cs = Some (p', close, rest)"
      by (auto simp: Let_def split: if_splits)
    from Cons.IH [OF this] show ?thesis by simp
  qed
qed

lemma matchQuoted_shorter:
  "matchQuoted t s = Some (q, p, close, rest) \<Longrightarrow> length rest < length s"
  by (cases s) (auto simp: matchQuoted_def split: if_splits dest!: matchSpecifier_shorter)

lemma matchFrom_shorter:
  "matchFrom s = Some (pre, q, p, close, rest) \<Longrightarrow> length rest < length s"
proof -
  assume "matchFrom s = Some (pre, q, p, close, rest)"
  then have "matchQuoted CHR '';'' (dropWhile isSpaceChar (drop 4 s)) = Some (q, p, close, rest)"
    by (auto simp: matchFrom_def split: if_splits)
  from matchQuoted_shorter [OF this]
  have "length rest < length (dropWhile isSpaceChar (drop 4 s))" .
  also have "\<dots> \<le> length (drop 4 s)" by (rule length_dropWhile_le)
  also have "\<dots> \<le> length s" by simp
  finally show ?thesis .
qed

lemma matchImportTail_shorter:
  "matchImportTail s = Some (pre, q, p, close, rest) \<Longrightarrow> length rest \<le> length s"
proof (induction s arbitrary: pre)
  case Nil
  then show ?case by (simp add: matchFrom_def)
next
  case (Cons c cs)
  show ?case
  proof (cases "matchFrom (c # cs)")
    case None
    with Cons.prems obtain pre' where "matchImportTail cs = Some (pre', q, p, close, rest)"
      by auto
    from Cons.IH [OF this] show ?thesis by simp
  next
    case (Some m)
    with Cons.prems have "matchFrom (c # cs) = Some (pre, q, p, close, rest)" by simp
    from matchFrom_shorter [OF this] show ?thesis by simp
  qed
qed

lemma matchAt_shorter:
  assumes "matchAt pat s = Some (pre, q, p, close, rest)"
  shows "length rest < length s"
proof (cases pat)
  case ImportFrom
  with assms obtain pre' where s: "prefix ''import'' s"
    and "matchImportTail (drop 6 s) = Some (pre', q, p, close, rest)"
    by (auto simp: matchAt_def matchImport_def split: if_splits)
  from matchImportTail_shorter [OF this(2)] have "length rest \<le> length s - 6" by simp
  moreover from s have "6 \<le> length s" by (auto simp: prefix_def)
  ultimately show ?thesis by simp
next
  case RequireCall
  with assms obtain c s3 where "dropWhile isSpaceChar (drop 7 s) = c # s3"
    and "matchQuoted CHR '')'' (dropWhile isSpaceChar s3) = Some (q, p, close, rest)"
    by (auto simp: matchAt_def matchRequire_def Let_def split: if_splits list.splits)
  from matchQuoted_shorter [OF this(2)]
  have "length rest < length (dropWhile isSpaceChar s3)" .
  also have "\<dots> \<le> length s3" by (rule length_dropWhile_le)
  also have "\<dots> \<le> length (dropWhile isSpaceChar (drop 7 s))"
    using \<open>dropWhile isSpaceChar (drop 7 s) = c # s3\<close> by simp
  also have "\<dots> \<le> length (drop 7 s)" by (rule length_dropWhile_le)
  also have "\<dots> \<le> length s" by simp
  finally show ?thesis .
qed

function replaceAll :: "pattern \<Rightarrow> (string \<Rightarrow> 'e + string) \<Rightarrow> string \<Rightarrow> 'e + string" where
  \<comment> \<open>\<open>result.replace(regex, callback)\<close> with a global expression: the leftmost match
      from each position on, replaced by prefix, quote, the callback's result and closing; an
      exception of the callback ends the replacement\<close>
  "replaceAll pat cb [] = Inr []"
| "replaceAll pat cb (c # cs) =
     (case matchAt pat (c # cs) of
        None \<Rightarrow> map_sum id ((#) c) (replaceAll pat cb cs)
      | Some (pre, q, p, close, rest) \<Rightarrow>
          (case cb p of
             Inl e \<Rightarrow> Inl e
           | Inr p' \<Rightarrow> map_sum id (\<lambda>r. pre @ q # p' @ close @ r) (replaceAll pat cb rest)))"
  by pat_completeness auto
termination
  by (relation "measure (\<lambda>(pat, cb, s). length s)") (auto dest: matchAt_shorter)

definition rewriteImports :: "'o env \<Rightarrow> string \<Rightarrow> string \<Rightarrow> logline \<times> error + string" where
  "rewriteImports env absoluteFilePath code =
     (case replaceAll ImportFrom (\<lambda>importPath. resolveAndFixImport env importPath absoluteFilePath) code of
        Inl e \<Rightarrow> Inl e
      | Inr result \<Rightarrow>
          replaceAll RequireCall (\<lambda>importPath. resolveAndFixImport env importPath absoluteFilePath) result)"

text \<open>
  The output side of the file system and the console: the regular files with their text,
  their modification times on a logical clock that every write advances, and the lines
  printed. A file that exists can be read; a write or a directory creation fails when the
  environment says so, and then changes nothing.
\<close>

record world =
  files :: "string \<rightharpoonup> string"
  mtime :: "string \<rightharpoonup> nat"
  clock :: nat
  console :: "logline list"

definition logLine :: "logline \<Rightarrow> world \<Rightarrow> world" where
  "logLine l w = w\<lparr>console := console w @ [l]\<rparr>"

definition readFile :: "world \<Rightarrow> string \<Rightarrow> error + string" where
  "readFile w p = (case files w p of None \<Rightarrow> Inl (FsError ''ENOENT'' p) | Some text \<Rightarrow> Inr text)"

definition mkdir :: "'o env \<Rightarrow> string \<Rightarrow> world \<Rightarrow> error + world" where
  "mkdir env p w = (case fsFault env (Mkdir p) of Some e \<Rightarrow> Inl e | None \<Rightarrow> Inr w)"

definition writeFile :: "'o env \<Rightarrow> string \<Rightarrow> string \<Rightarrow> world \<Rightarrow> error + world" where
  "writeFile env p text w =
     (case fsFault env (WriteFile p) of
        Some e \<Rightarrow> Inl e
      | None \<Rightarrow>
          Inr (w\<lparr>files := (files w)(p \<mapsto> text), mtime := (mtime w)(p \<mapsto> clock w),
                 clock := Suc (clock w)\<rparr>))"

definition replaceTsExt :: "string \<Rightarrow> string" where
  \<comment> \<open>\<open>.replace(/\.tsx?$/, '.js')\<close>\<close>
  "replaceTsExt s =
     (if suffix ''.tsx'' s then slice0 s 4 @ ''.js''
      else if suffix ''.ts'' s then slice0 s 3 @ ''.js''
      else s)"

definition outPathOf :: "'o env \<Rightarrow> string \<Rightarrow> string \<Rightarrow> string \<Rightarrow> string" where
  \<comment> \<open>\<open>path.join(outDir, path.relative(srcDir, absoluteFilePath)).replace(/\.tsx?$/, '.js')\<close>\<close>
  "outPathOf env srcDir outDir absoluteFilePath =
     replaceTsExt (join outDir (relative (cwd env) srcDir absoluteFilePath))"

definition hasMap :: "string option \<Rightarrow> bool" where
  \<comment> \<open>\<open>if (map)\<close>: neither undefined nor the empty string\<close>
  "hasMap sourceMap \<longleftrightarrow> sourceMap \<noteq> None \<and> sourceMap \<noteq> Some []"

definition compileInMemory ::
  "'o env \<Rightarrow> string \<Rightarrow> string \<Rightarrow> string \<Rightarrow> 'o \<Rightarrow> logline list \<times> error + string \<times> string option" where
  \<comment> \<open>the first half of \<open>compileFile\<close>: transformation, the two rewriting passes and the
      source-map comment. \<open>Inl (ls, e)\<close>: the lines \<open>ls\<close> were printed and \<open>e\<close> thrown\<close>
  "compileInMemory env absoluteFilePath srcDir outDir swcOptions =
     (let relativePath = relative (cwd env) srcDir absoluteFilePath;
          mapPath = outPathOf env srcDir outDir absoluteFilePath @ ''.map''
      in case transformFile env (join srcDir relativePath) swcOptions of
           Inl e \<Rightarrow> Inl ([], e)
         | Inr (code, sourceMap) \<Rightarrow>
             (case rewriteImports env absoluteFilePath code of
                Inl (l, e) \<Rightarrow> Inl ([l], e)
              | Inr rewritten \<Rightarrow>
                  Inr (if hasMap sourceMap
                       then rewritten @ CHR 0x0A # ''//# sourceMappingURL='' @ basename mapPath
                       else rewritten,
                       sourceMap)))"

definition existingCodeAt :: "world \<Rightarrow> string \<Rightarrow> string" where
  \<comment> \<open>\<open>catchingAsync(() => readFile(outPath, 'utf-8'), () => ``)\<close>\<close>
  "existingCodeAt w outPath = (case readFile w outPath of Inl _ \<Rightarrow> [] | Inr text \<Rightarrow> text)"

definition writeIfChanged ::
  "'o env \<Rightarrow> string \<Rightarrow> bool \<Rightarrow> string \<Rightarrow> string option \<Rightarrow> world \<Rightarrow> (error + unit) \<times> world" where
  \<comment> \<open>the second half of \<open>compileFile\<close>: read, compare, write\<close>
  "writeIfChanged env outPath verbose fixedCode sourceMap w =
     (let mapPath = outPath @ ''.map'';
          existingCode = existingCodeAt w outPath
      in if trim fixedCode \<noteq> trim existingCode then
           (let w1 = (if verbose then logLine (ChangeDetected outPath) w else w)
            in case mkdir env (dirname outPath) w1 of
                 Inl e \<Rightarrow> (Inl e, w1)
               | Inr w2 \<Rightarrow>
                   (case writeFile env outPath fixedCode w2 of
                      Inl e \<Rightarrow> (Inl e, w2)
                    | Inr w3 \<Rightarrow>
                        if hasMap sourceMap then
                          (case writeFile env mapPath (case sourceMap of Some m \<Rightarrow> m | None \<Rightarrow> []) w3 of
                             Inl e \<Rightarrow> (Inl e, w3)
                           | Inr w4 \<Rightarrow> (Inr (), w4))
                        else (Inr (), w3)))
         else (Inr (), if verbose then logLine (NoOutputChange outPath) w else w))"

definition compileFileBody ::
  "'o env \<Rightarrow> string \<Rightarrow> string \<Rightarrow> string \<Rightarrow> bool \<Rightarrow> 'o \<Rightarrow> world \<Rightarrow> (error + unit) \<times> world" where
  \<comment> \<open>the \<open>try\<close> block of \<open>compileFile\<close>\<close>
  "compileFileBody env absoluteFilePath srcDir outDir verbose swcOptions w =
     (case compileInMemory env absoluteFilePath srcDir outDir swcOptions of
        Inl (ls, e) \<Rightarrow> (Inl e, w\<lparr>console := console w @ ls\<rparr>)
      | Inr (fixedCode, sourceMap) \<Rightarrow>
          writeIfChanged env (outPathOf env srcDir outDir absoluteFilePath) verbose
            fixedCode sourceMap w)"

definition compileFile ::
  "'o env \<Rightarrow> string \<Rightarrow> string \<Rightarrow> string \<Rightarrow> bool \<Rightarrow> 'o \<Rightarrow> world \<Rightarrow> (error + unit) \<times> world" where
  \<comment> \<open>\<open>try { ... } catch (error) { console.error(..., error) }\<close>: the first component is
      what the returned promise settles to (\<open>Inl\<close>: rejected)\<close>
  "compileFile env absoluteFilePath srcDir outDir verbose swcOptions w =
     (case compileFileBody env absoluteFilePath srcDir outDir verbose swcOptions w of
        (Inl e, w') \<Rightarrow> (Inr (), logLine (CompileError absoluteFilePath e) w')
      | (Inr u, w') \<Rightarrow> (Inr u, w'))"

section \<open>Batch Builder\<close>

fun compileAll ::
  "'o env \<Rightarrow> string \<Rightarrow> string \<Rightarrow> bool \<Rightarrow> 'o \<Rightarrow> string list \<Rightarrow> world \<Rightarrow> (error + unit) \<times> world" where
  \<comment> \<open>\<open>Promise.all(files.map(file => compileFile(...)))\<close>, the compiles taken one after the
      other in the order of the list; a rejected compile rejects the whole\<close>
  "compileAll env srcDir outDir verbose swcOptions [] w = (Inr (), w)"
| "compileAll env srcDir outDir verbose swcOptions (file # rest) w =
     (case compileFile env file srcDir outDir verbose swcOptions w of
        (Inl e, w') \<Rightarrow> (Inl e, w')
      | (Inr _, w') \<Rightarrow> compileAll env srcDir outDir verbose swcOptions rest w')"

definition enumerate_sources :: "'o env \<Rightarrow> string \<Rightarrow> string list \<Rightarrow> string list" where
  \<comment> \<open>\<open>glob(`${srcDir}/**/*.{ts,tsx}`, {ignore: excludePatterns})\<close>\<close>
  "enumerate_sources env srcDir excludePatterns =
     glob env (srcDir @ ''/**/*.{ts,tsx}'') excludePatterns"

definition runBuild ::
  "'o env \<Rightarrow> string \<Rightarrow> string \<Rightarrow> bool \<Rightarrow> string list \<Rightarrow> 'o \<Rightarrow> world \<Rightarrow> (error + unit) \<times> world" where
  "runBuild env srcDir outDir verbose excludePatterns swcOptions w =
     (let fileList = enumerate_sources env srcDir excludePatterns
      in case compileAll env srcDir outDir verbose swcOptions fileList
                (logLine (RunningBuild srcDir) w) of
           (Inl e, w') \<Rightarrow> (Inl e, w')
         | (Inr _, w') \<Rightarrow> (Inr (), logLine (BuildComplete (length fileList)) w'))"

section \<open>Watch Controller\<close>

text \<open>
  The watcher library is started on \<open>.\<close> with \<open>cwd: srcDir\<close>. It calls the \<open>ignored\<close>
  predicate with the absolute path of what it found and, when it has them, the file's
  stats; it emits \<open>add\<close> and \<open>change\<close> only for paths the predicate does not reject, and
  hands the listener the path relative to \<open>srcDir\<close>. An event carries the absolute path
  and whether the stats say it is a file (\<open>None\<close>: no stats).
\<close>

record watchedFile =
  watchedPath :: string
  watchedIsFile :: "bool option"

datatype watcherEvent = Add watchedFile | Change watchedFile | Ready | WatcherError error

definition ignored :: "'o env \<Rightarrow> string list \<Rightarrow> string \<Rightarrow> bool option \<Rightarrow> bool" where
  "ignored env excludePatterns filePath isFile =
     (if isMatch env filePath excludePatterns then True
      else if isFile = Some True then
        prefix ''.'' (basename filePath) \<or> suffix ''.d.ts'' filePath \<or>
        \<not> (suffix ''.ts'' filePath \<or> suffix ''.tsx'' filePath)
      else False)"

definition onAddOrChange ::
  "'o env \<Rightarrow> string \<Rightarrow> string \<Rightarrow> bool \<Rightarrow> 'o \<Rightarrow> string \<Rightarrow> world \<Rightarrow> (error + unit) \<times> world" where
  \<comment> \<open>the listener of \<open>add\<close> and of \<open>change\<close>\<close>
  "onAddOrChange env srcDir outDir verbose swcOptions filePath w =
     compileFile env (join srcDir filePath) srcDir outDir verbose swcOptions w"

definition watchDispatch ::
  "'o env \<Rightarrow> string \<Rightarrow> string \<Rightarrow> bool \<Rightarrow> string list \<Rightarrow> 'o \<Rightarrow> watchedFile \<Rightarrow> world
     \<Rightarrow> (error + unit) \<times> world" where
  \<comment> \<open>an \<open>add\<close> or \<open>change\<close> reaches the listener only when the path is not ignored\<close>
  "watchDispatch env srcDir outDir verbose excludePatterns swcOptions f w =
     (if ignored env excludePatterns (watchedPath f) (watchedIsFile f) then (Inr (), w)
      else onAddOrChange env srcDir outDir verbose swcOptions
             (relative (cwd env) srcDir (watchedPath f)) w)"

definition watchStep ::
  "'o env \<Rightarrow> string \<Rightarrow> string \<Rightarrow> bool \<Rightarrow> string list \<Rightarrow> 'o \<Rightarrow> watcherEvent \<Rightarrow> world
     \<Rightarrow> (error + unit) \<times> world" where
  "watchStep env srcDir outDir verbose excludePatterns swcOptions ev w =
     (case ev of
        Add f \<Rightarrow> watchDispatch env srcDir outDir verbose excludePatterns swcOptions f w
      | Change f \<Rightarrow> watchDispatch env srcDir outDir verbose excludePatterns swcOptions f w
      | Ready \<Rightarrow> (Inr (), if verbose then logLine InitialScanComplete w else w)
      | WatcherError e \<Rightarrow> (Inr (), logLine (WatcherErrorLine e) w))"

fun watchAll ::
  "'o env \<Rightarrow> string \<Rightarrow> string \<Rightarrow> bool \<Rightarrow> string list \<Rightarrow> 'o \<Rightarrow> watcherEvent list \<Rightarrow> world
     \<Rightarrow> (error + unit) \<times> world" where
  "watchAll env srcDir outDir verbose excludePatterns swcOptions [] w = (Inr (), w)"
| "watchAll env srcDir outDir verbose excludePatterns swcOptions (ev # evs) w =
     (case watchStep env srcDir outDir verbose excludePatterns swcOptions ev w of
        (Inl e, w') \<Rightarrow> (Inl e, w')
      | (Inr _, w') \<Rightarrow> watchAll env srcDir outDir verbose excludePatterns swcOptions evs w')"

definition runWatch ::
  "'o env \<Rightarrow> string \<Rightarrow> string \<Rightarrow> bool \<Rightarrow> string list \<Rightarrow> 'o \<Rightarrow> watcherEvent list \<Rightarrow> world
     \<Rightarrow> (error + unit) \<times> world" where
  \<comment> \<open>the full build first, then the events of the watcher in the order they arrive\<close>
  "runWatch env srcDir outDir verbose excludePatterns swcOptions events w =
     (case runBuild env srcDir outDir verbose excludePatterns swcOptions w of
        (Inl e, w') \<Rightarrow> (Inl e, w')
      | (Inr _, w') \<Rightarrow>
          watchAll env srcDir outDir verbose excludePatterns swcOptions events
            (if verbose then logLine (Watching srcDir) w' else w'))"

section \<open>Lifecycle Coordinator\<close>

datatype signal = SIGINT | SIGTERM | SIGKILL

datatype listener =
    ExitWithChildCode
  | ClearTimeoutAndExit nat

datatype coordinatorLine =
    FailedToFindScript
  | UnhandledError error
  | ReceivedShutdownSignal
  | ErrorSendingSignal signal
  | ChildDidNotExitGracefully

text \<open>
  The coordinator after \<open>main\<close> has set it up: the pid of the child (\<open>None\<close> when the
  spawn gave none), the listeners of the child's \<open>exit\<close> event in the order they were
  registered, the timeouts that are armed, the signals sent to process groups, what was
  printed, and the status \<open>process.exit\<close> was called with (\<open>None\<close>: still running).
\<close>

record coordinator =
  childPid :: "nat option"
  childCommand :: "string list"
  exitListeners :: "listener list"
  timeouts :: "nat list"
  nextTimeout :: nat
  signalsSent :: "(nat \<times> signal) list"
  printed :: "coordinatorLine list"
  exitStatus :: "int option"

datatype coordinatorEvent =
    Shutdown signal
  | ChildExit "int option"
  | TimeoutFired nat

fun pickExisting :: "(string \<Rightarrow> bool) \<Rightarrow> string list \<Rightarrow> string option" where
  "pickExisting existsSync [] = None"
| "pickExisting existsSync (p # paths) =
     (if existsSync p then Some p else pickExisting existsSync paths)"

definition kill :: "(nat \<Rightarrow> signal \<Rightarrow> bool) \<Rightarrow> nat \<Rightarrow> signal \<Rightarrow> coordinator \<Rightarrow> coordinator" where
  \<comment> \<open>\<open>process.kill(-pid, signal)\<close>: to the process group of \<open>pid\<close>; \<open>delivers\<close> tells
      whether the operating system accepts the call (otherwise it throws, and the error is
      printed)\<close>
  "kill delivers pid sig c =
     (if delivers pid sig then c\<lparr>signalsSent := signalsSent c @ [(pid, sig)]\<rparr>
      else c\<lparr>printed := printed c @ [ErrorSendingSignal sig]\<rparr>)"

definition processExit :: "int \<Rightarrow> coordinator \<Rightarrow> coordinator" where
  "processExit code c = c\<lparr>exitStatus := Some code\<rparr>"

definition coordinatorMain ::
  "(string \<Rightarrow> bool) \<Rightarrow> (string \<Rightarrow> error + string) \<Rightarrow> nat option \<Rightarrow> string list \<Rightarrow> coordinator" where
  \<comment> \<open>\<open>main\<close> and its \<open>catch\<close>: \<open>existsSync\<close> and \<open>findBinPath\<close> are the file system's and
      the package manager's answers, \<open>pid\<close> what the spawn returns, \<open>argv\<close> the arguments of
      the process from the script's own path on (\<open>process.argv.slice(1)\<close>)\<close>
  "coordinatorMain existsSync findBinPath pid argv =
     (let idle = \<lparr> childPid = None, childCommand = [], exitListeners = [], timeouts = [],
                   nextTimeout = 0, signalsSent = [], printed = [], exitStatus = None \<rparr>;
          dir = dirname (case argv of [] \<Rightarrow> [] | a # _ \<Rightarrow> a)
      in case pickExisting existsSync
                [join dir ''./swc-ts-build.ts'', join dir ''./swc-ts-build.js''] of
           None \<Rightarrow> processExit 1 (idle\<lparr>printed := [FailedToFindScript]\<rparr>)
         | Some scriptToRun \<Rightarrow>
             (case (case findBinPath ''tsx'' of
                      Inr command \<Rightarrow> Inr command
                    | Inl _ \<Rightarrow> findBinPath ''ts-node'') of
                Inl e \<Rightarrow> processExit 1 (idle\<lparr>printed := [UnhandledError e]\<rparr>)
              | Inr command \<Rightarrow>
                  idle\<lparr> childPid := pid,
                        childCommand := [''yarn'', ''node'', command, scriptToRun] @ tl argv,
                        exitListeners := [ExitWithChildCode] \<rparr>))"

definition handleShutdown :: "(nat \<Rightarrow> signal \<Rightarrow> bool) \<Rightarrow> coordinator \<Rightarrow> coordinator" where
  "handleShutdown delivers c =
     (let c1 = c\<lparr>printed := printed c @ [ReceivedShutdownSignal]\<rparr>;
          c2 = (case childPid c1 of Some pid \<Rightarrow> kill delivers pid SIGTERM c1 | None \<Rightarrow> c1);
          timeout = nextTimeout c2
      in c2\<lparr> timeouts := timeouts c2 @ [timeout], nextTimeout := Suc timeout,
               exitListeners := exitListeners c2 @ [ClearTimeoutAndExit timeout] \<rparr>)"

definition onTimeout :: "(nat \<Rightarrow> signal \<Rightarrow> bool) \<Rightarrow> coordinator \<Rightarrow> coordinator" where
  \<comment> \<open>the callback of \<open>setTimeout\<close> in \<open>handleShutdown\<close>\<close>
  "onTimeout delivers c =
     (let c1 = c\<lparr>printed := printed c @ [ChildDidNotExitGracefully]\<rparr>;
          c2 = (case childPid c1 of Some pid \<Rightarrow> kill delivers pid SIGKILL c1 | None \<Rightarrow> c1)
      in processExit 1 c2)"

definition runListener :: "listener \<Rightarrow> int option \<Rightarrow> coordinator \<Rightarrow> coordinator" where
  "runListener l code c =
     (case l of
        ExitWithChildCode \<Rightarrow>
          processExit (case code of None \<Rightarrow> 0 | Some n \<Rightarrow> n) c
      | ClearTimeoutAndExit timeout \<Rightarrow>
          processExit 0 (c\<lparr>timeouts := removeAll timeout (timeouts c)\<rparr>))"

fun emitExit :: "listener list \<Rightarrow> int option \<Rightarrow> coordinator \<Rightarrow> coordinator" where
  \<comment> \<open>the listeners are called in the order of registration; \<open>process.exit\<close> ends the
      process, so the listeners after it are not called\<close>
  "emitExit [] code c = c"
| "emitExit (l # ls) code c =
     (if exitStatus c \<noteq> None then c else emitExit ls code (runListener l code c))"

definition coordinatorStep ::
  "(nat \<Rightarrow> signal \<Rightarrow> bool) \<Rightarrow> coordinatorEvent \<Rightarrow> coordinator \<Rightarrow> coordinator" where
  "coordinatorStep delivers ev c =
     (if exitStatus c \<noteq> None then c
      else case ev of
        Shutdown sig \<Rightarrow> if sig = SIGINT \<or> sig = SIGTERM then handleShutdown delivers c else c
      | ChildExit code \<Rightarrow> emitExit (exitListeners c) code c
      | TimeoutFired timeout \<Rightarrow>
          if timeout \<in> set (timeouts c)
          then onTimeout delivers (c\<lparr>timeouts := removeAll timeout (timeouts c)\<rparr>)
          else c)"

definition coordinatorRun ::
  "(nat \<Rightarrow> signal \<Rightarrow> bool) \<Rightarrow> coordinatorEvent list \<Rightarrow> coordinator \<Rightarrow> coordinator" where
  "coordinatorRun delivers evs c = foldl (\<lambda>c ev. coordinatorStep delivers ev c) c evs"

section \<open>Declaration Process Supervisor\<close>

datatype 'a promise = Pending | Resolved 'a | Rejected error

datatype workerLine =
    TscStarting
  | TscComplete
  | TscFailedToStart error
  | MainFailed error

text \<open>
  The worker process as far as the declaration subprocess decides its fate: the mode, the
  promise of the running \<open>startTsc\<close> call, how often \<open>startTsc\<close> was called, whether the
  retry helper waits to call it again, what was printed, and the status \<open>process.exit\<close>
  was called with (\<open>None\<close>: still running).
\<close>

record worker =
  watching :: bool
  tscPromise :: "int promise"
  tscStarts :: nat
  backoffArmed :: bool
  workerPrinted :: "workerLine list"
  workerExit :: "int option"

datatype workerEvent =
    TscExit "int option"
  | TscError error
  | BuildFailed error
  | BackoffElapsed

definition startTsc :: "worker \<Rightarrow> worker" where
  \<comment> \<open>the call: a new subprocess and a new pending promise\<close>
  "startTsc w =
     w\<lparr> tscPromise := Pending, tscStarts := Suc (tscStarts w),
        workerPrinted := workerPrinted w @ [TscStarting] \<rparr>"

definition tscOnExit :: "bool \<Rightarrow> int option \<Rightarrow> worker \<Rightarrow> worker" where
  \<comment> \<open>the listener of the subprocess's \<open>exit\<close> event\<close>
  "tscOnExit verbose code w =
     (if code = Some 0 then
        w\<lparr> tscPromise := Resolved 0,
           workerPrinted := workerPrinted w @ (if verbose then [TscComplete] else []) \<rparr>
      else w\<lparr> tscPromise := Rejected (ProcessExited code) \<rparr>)"

definition tscOnError :: "error \<Rightarrow> worker \<Rightarrow> worker" where
  \<comment> \<open>the listener of the subprocess's \<open>error\<close> event\<close>
  "tscOnError err w = w\<lparr> workerPrinted := workerPrinted w @ [TscFailedToStart err] \<rparr>"

definition mainCatch :: "error \<Rightarrow> worker \<Rightarrow> worker" where
  \<comment> \<open>\<open>main().catch(err => { console.error(err); process.exit(1) })\<close>\<close>
  "mainCatch err w = w\<lparr> workerPrinted := workerPrinted w @ [MainFailed err], workerExit := Some 1 \<rparr>"

definition workerMain :: "bool \<Rightarrow> worker" where
  \<comment> \<open>\<open>main\<close> with a declaration config given, up to its first \<open>await\<close>\<close>
  "workerMain watch =
     startTsc \<lparr> watching = watch, tscPromise = Pending, tscStarts = 0, backoffArmed = False,
                workerPrinted = [], workerExit = None \<rparr>"

definition workerStep :: "bool \<Rightarrow> workerEvent \<Rightarrow> worker \<Rightarrow> worker" where
  \<comment> \<open>build mode awaits \<open>Promise.all\<close> of the declaration run and the build, so a rejection
      of either reaches the \<open>catch\<close> of \<open>main\<close>; watch mode hands \<open>startTsc\<close> to the retry
      helper, which calls it again after the backoff when its promise is rejected\<close>
  "workerStep verbose ev w =
     (if workerExit w \<noteq> None then w
      else case ev of
        TscExit code \<Rightarrow>
          if tscPromise w \<noteq> Pending then w
          else
            (let w1 = tscOnExit verbose code w
             in case tscPromise w1 of
                  Rejected err \<Rightarrow> if watching w then w1\<lparr>backoffArmed := True\<rparr> else mainCatch err w1
                | _ \<Rightarrow> w1)
      | TscError err \<Rightarrow> tscOnError err w
      | BuildFailed err \<Rightarrow> mainCatch err w
      | BackoffElapsed \<Rightarrow> if backoffArmed w then startTsc (w\<lparr>backoffArmed := False\<rparr>) else w)"


section \<open>Vocabulary of the specification\<close>

definition isRelativeSpecifier :: "string \<Rightarrow> bool" where
  \<comment> \<open>a specifier that starts with \<open>./\<close> or \<open>../\<close>\<close>
  "isRelativeSpecifier s \<longleftrightarrow> prefix ''./'' s \<or> prefix ''../'' s"

definition isIndexFile :: "string \<Rightarrow> bool" where
  \<comment> \<open>the test of \<open>resolveAndFixImport\<close> on the resolved basename\<close>
  "isIndexFile resolvedPath \<longleftrightarrow>
     basename resolvedPath = ''index.js'' \<or> basename resolvedPath = ''index.ts''"

definition pastExternalGuards :: "'o env \<Rightarrow> string \<Rightarrow> bool" where
  \<comment> \<open>the resolved path passes the two guards of \<open>resolveAndFixImport\<close>: it is absolute,
      and its path relative to the working directory does not match the regular expression
      for external libraries\<close>
  "pastExternalGuards env resolvedPath \<longleftrightarrow>
     isAbsolute resolvedPath \<and> \<not> inNodeModules (relative (cwd env) (cwd env) resolvedPath)"

definition insideProject :: "'o env \<Rightarrow> string \<Rightarrow> bool" where
  \<comment> \<open>an absolute path with no directory named \<open>node_modules\<close> on its path relative to
      the working directory\<close>
  "insideProject env resolvedPath \<longleftrightarrow>
     isAbsolute resolvedPath \<and>
     ''node_modules'' \<notin>
       set (butlast (splitOn CHR ''/'' (relative (cwd env) (cwd env) resolvedPath)))"

definition cleanSegment :: "string \<Rightarrow> bool" where
  \<comment> \<open>a file or directory name as an enumeration returns it\<close>
  "cleanSegment s \<longleftrightarrow> s \<noteq> [] \<and> s \<noteq> ''.'' \<and> s \<noteq> ''..'' \<and> CHR ''/'' \<notin> set s"

definition absPath :: "string list \<Rightarrow> string" where
  \<comment> \<open>the absolute path with these segments\<close>
  "absPath segs = concat (map (\<lambda>s. CHR ''/'' # s) segs)"

definition isSourceName :: "string \<Rightarrow> bool" where
  \<comment> \<open>the names the pattern \<open>*.{ts,tsx}\<close> selects\<close>
  "isSourceName s \<longleftrightarrow> suffix ''.ts'' s \<or> suffix ''.tsx'' s"

definition withoutSourceExt :: "string \<Rightarrow> string" where
  \<comment> \<open>a path without its trailing \<open>.ts\<close> or \<open>.tsx\<close>\<close>
  "withoutSourceExt s =
     (if suffix ''.tsx'' s then slice0 s 4 else if suffix ''.ts'' s then slice0 s 3 else s)"

section \<open>A sample project\<close>

text \<open>
  A small project tree under \<open>/proj\<close>, used to run the model on concrete inputs:
  \<open>src/main.ts\<close> requires \<open>./util\<close> (the directory \<open>src/util\<close> with an \<open>index.ts\<close>),
  \<open>src/bad.ts\<close> requires a module that does not exist, \<open>src/broken.ts\<close> is rejected by the
  transformation engine, \<open>src/data.json\<close> is a directory with an \<open>index.js\<close>, and the
  package \<open>dep\<close> is installed in \<open>node_modules\<close>. The pattern matcher compares a pattern
  with the string it is given: a pattern matches the path it spells out, and \<open>dir/**\<close>
  matches what starts with \<open>dir/\<close>.
\<close>

definition sampleResolve :: "string \<Rightarrow> string \<Rightarrow> error + string" where
  "sampleResolve p dir =
     (if dir = ''/proj/src'' \<and> p = ''./util'' then Inr ''/proj/src/util/index.ts''
      else if dir = ''/proj/src'' \<and> p = ''./helper.ts'' then Inr ''/proj/src/helper.ts''
      else if dir = ''/proj/src'' \<and> p = ''./comp.tsx'' then Inr ''/proj/src/comp.tsx''
      else if dir = ''/proj/src'' \<and> p = ''../node_modules/dep''
        then Inr ''/proj/node_modules/dep/index.js''
      else if dir = ''/proj/src'' \<and> p = ''./data.json''
        then Inr ''/proj/src/data.json/index.js''
      else Inl (ModuleNotFound p))"

definition sampleTransform :: "string \<Rightarrow> unit \<Rightarrow> error + string \<times> string option" where
  "sampleTransform p opts =
     (if p = ''/proj/src/main.ts''
        then Inr (''const u = require(\"./util\");'', Some ''{\"version\":3}'')
      else if p = ''/proj/src/helper.ts'' then Inr (''exports.h = 1;'', None)
      else if p = ''/proj/src/bad.ts'' then Inr (''require(\"./missing-file\");'', None)
      else if p = ''/proj/src/gen/api.ts'' then Inr (''exports.api = 1;'', None)
      else Inl (EngineError p))"

definition sampleMatch :: "string \<Rightarrow> string list \<Rightarrow> bool" where
  "sampleMatch p patterns =
     list_ex (\<lambda>pat. pat = p \<or> (suffix ''/**'' pat \<and> prefix (slice0 pat 2) p)) patterns"

definition sampleGlob :: "string \<Rightarrow> string \<Rightarrow> string list \<Rightarrow> string list" where
  \<comment> \<open>the enumerator matches a relative \<open>ignore\<close> pattern below its working directory\<close>
  "sampleGlob wd pattern ignore =
     filter
       (\<lambda>p. \<not> sampleMatch p
               (map (\<lambda>pat. if isAbsolute pat then pat else wd @ CHR ''/'' # pat) ignore))
       [''/proj/src/main.ts'', ''/proj/src/broken.ts'', ''/proj/src/bad.ts'',
        ''/proj/src/gen/api.ts'', ''/proj/src/helper.ts'']"

definition sampleEnv :: "unit env" where
  "sampleEnv =
     \<lparr> cwd = ''/proj'', requireResolve = sampleResolve, transformFile = sampleTransform,
       fsFault = (\<lambda>_. None),
       glob = sampleGlob ''/proj'', isMatch = sampleMatch \<rparr>"

definition emptyWorld :: world where
  "emptyWorld = \<lparr> files = Map.empty, mtime = Map.empty, clock = 0, console = [] \<rparr>"

definition sampleBuilt :: world where
  "sampleBuilt =
     \<lparr> files = [''/proj/dist/main.js'' \<mapsto>
                   ''const u = require(\"./util/index.js\");'' @ CHR 0x0A # ''//# sourceMappingURL=main.js.map'',
                 ''/proj/dist/main.js.map'' \<mapsto> ''{\"version\":3}''],
       mtime = [''/proj/dist/main.js'' \<mapsto> 0, ''/proj/dist/main.js.map'' \<mapsto> 1],
       clock = 2,
       console = [ChangeDetected ''/proj/dist/main.js''] \<rparr>"

definition sampleStale :: world where
  "sampleStale =
     \<lparr> files = [''/proj/dist/main.js'' \<mapsto>
                   ''  const u = require(\"./util/index.js\");'' @ CHR 0x0A # ''//# sourceMappingURL=main.js.map'' @ [CHR 0x0A],
                 ''/proj/dist/main.js.map'' \<mapsto> ''{\"version\":2}''],
       mtime = [''/proj/dist/main.js'' \<mapsto> 0, ''/proj/dist/main.js.map'' \<mapsto> 1],
       clock = 2,
       console = [] \<rparr>"

definition faultyEnv :: "unit env" where
  "faultyEnv =
     sampleEnv\<lparr> fsFault :=
       (\<lambda>op. if op = WriteFile ''/proj/dist/helper.js''
             then Some (FsError ''EACCES'' ''/proj/dist/helper.js'') else None) \<rparr>"

definition sampleBatchResult :: world where
  "sampleBatchResult =
     \<lparr> files = [''/proj/dist/main.js'' \<mapsto>
                   ''const u = require(\"./util/index.js\");'' @ CHR 0x0A # ''//# sourceMappingURL=main.js.map'',
                 ''/proj/dist/main.js.map'' \<mapsto> ''{\"version\":3}''],
       mtime = [''/proj/dist/main.js'' \<mapsto> 0, ''/proj/dist/main.js.map'' \<mapsto> 1],
       clock = 2,
       console =
         [CompileError ''/proj/src/broken.ts'' (EngineError ''/proj/src/broken.ts''),
          ImportError ''./missing-file'' ''/proj/src/bad.ts'',
          CompileError ''/proj/src/bad.ts'' (ModuleNotFound ''./missing-file.js''),
          CompileError ''/proj/src/helper.ts'' (FsError ''EACCES'' ''/proj/dist/helper.js'')] \<rparr>"

definition sampleGenEvent :: watchedFile where
  "sampleGenEvent = \<lparr> watchedPath = ''/proj/src/gen/api.ts'', watchedIsFile = Some True \<rparr>"

definition sampleGenCompiled :: world where
  "sampleGenCompiled =
     \<lparr> files = [''/proj/dist/gen/api.js'' \<mapsto> ''exports.api = 1;''],
       mtime = [''/proj/dist/gen/api.js'' \<mapsto> 0],
       clock = 1,
       console = [] \<rparr>"

definition sampleCoordinator :: coordinator where
  "sampleCoordinator =
     coordinatorMain (\<lambda>p. p = ''/proj/bin/swc-ts-build.js'')
       (\<lambda>name. if name = ''tsx'' then Inr ''/proj/node_modules/.bin/tsx'' else Inl (ModuleNotFound name))
       (Some 4242) [''/proj/bin/swc-ts.js'', ''-s'', ''src'', ''-d'', ''dist'']"


section \<open>Facts about the file system model\<close>

lemma writeFile_Inr:
  "writeFile env p text w = Inr w' \<Longrightarrow>
     files w' = (files w)(p \<mapsto> text) \<and> mtime w' = (mtime w)(p \<mapsto> clock w)"
  by (auto simp: writeFile_def split: option.splits)

lemma mkdir_Inr: "mkdir env p w = Inr w' \<Longrightarrow> w' = w"
  by (auto simp: mkdir_def split: option.splits)

lemma mkdir_Inl: "mkdir env p w = Inl e \<Longrightarrow> fsFault env (Mkdir p) \<noteq> None"
  by (auto simp: mkdir_def split: option.splits)

lemma writeFile_Inl: "writeFile env p text w = Inl e \<Longrightarrow> fsFault env (WriteFile p) \<noteq> None"
  by (auto simp: writeFile_def split: option.splits)

lemma existingCodeAt_cong: "files w' = files w \<Longrightarrow> existingCodeAt w' p = existingCodeAt w p"
  by (simp add: existingCodeAt_def readFile_def)

lemma existingCodeAt_written: "files w p = Some text \<Longrightarrow> existingCodeAt w p = text"
  by (simp add: existingCodeAt_def readFile_def)

lemma logLine_files [simp]: "files (logLine l w) = files w" "mtime (logLine l w) = mtime w"
  "clock (logLine l w) = clock w"
  by (simp_all add: logLine_def)

lemma writeIfChanged_cases:
  assumes "writeIfChanged env outPath verbose fixedCode sourceMap w = (r, w')"
  shows "(files w' = files w \<and> mtime w' = mtime w \<and>
            (trim fixedCode = trim (existingCodeAt w outPath) \<or>
             fsFault env (Mkdir (dirname outPath)) \<noteq> None \<or>
             fsFault env (WriteFile outPath) \<noteq> None))
       \<or> (files w' outPath = Some fixedCode \<and> mtime w' outPath = Some (clock w))"
proof (cases "trim fixedCode = trim (existingCodeAt w outPath)")
  case True
  with assms show ?thesis by (auto simp: writeIfChanged_def)
next
  case False
  define w1 where "w1 = (if verbose then logLine (ChangeDetected outPath) w else w)"
  have w1: "files w1 = files w" "mtime w1 = mtime w" "clock w1 = clock w"
    by (simp_all add: w1_def)
  show ?thesis
  proof (cases "mkdir env (dirname outPath) w1")
    case (Inl e)
    with assms False have "w' = w1" by (simp add: writeIfChanged_def w1_def)
    with w1 mkdir_Inl [OF Inl] show ?thesis by simp
  next
    case (Inr w2)
    then have w2: "w2 = w1" by (rule mkdir_Inr)
    show ?thesis
    proof (cases "writeFile env outPath fixedCode w1")
      case (Inl e)
      with assms False Inr w2 have "w' = w1" by (simp add: writeIfChanged_def w1_def)
      with w1 writeFile_Inl [OF Inl] show ?thesis by simp
    next
      case (Inr w3)
      note w3 = writeFile_Inr [OF Inr]
      show ?thesis
      proof (cases "hasMap sourceMap \<and>
          (\<exists>w4. writeFile env (outPath @ ''.map'') (case sourceMap of Some m \<Rightarrow> m | None \<Rightarrow> []) w3 = Inr w4)")
        case True
        then obtain w4 where w4: "writeFile env (outPath @ ''.map'') (case sourceMap of Some m \<Rightarrow> m | None \<Rightarrow> []) w3 = Inr w4"
          and hm: "hasMap sourceMap" by blast
        with assms False \<open>mkdir env (dirname outPath) w1 = Inr w2\<close> w2 Inr
        have "w' = w4" by (simp add: writeIfChanged_def w1_def)
        with writeFile_Inr [OF w4] w3 w1 show ?thesis by simp
      next
        case False
        with assms \<open>trim fixedCode \<noteq> trim (existingCodeAt w outPath)\<close>
          \<open>mkdir env (dirname outPath) w1 = Inr w2\<close> w2 Inr
        have "w' = w3" by (auto simp: writeIfChanged_def w1_def split: sum.splits if_splits)
        with w3 w1 show ?thesis by simp
      qed
    qed
  qed
qed

lemma writeIfChanged_skip:
  assumes "trim fixedCode = trim (existingCodeAt w outPath) \<or>
             fsFault env (Mkdir (dirname outPath)) \<noteq> None \<or>
             fsFault env (WriteFile outPath) \<noteq> None"
      and "writeIfChanged env outPath verbose fixedCode sourceMap w = (r, w')"
  shows "files w' = files w \<and> mtime w' = mtime w"
proof (cases "trim fixedCode = trim (existingCodeAt w outPath)")
  case True
  with assms(2) show ?thesis by (auto simp: writeIfChanged_def)
next
  case False
  define w1 where "w1 = (if verbose then logLine (ChangeDetected outPath) w else w)"
  have w1: "files w1 = files w" "mtime w1 = mtime w"
    by (simp_all add: w1_def)
  show ?thesis
  proof (cases "fsFault env (Mkdir (dirname outPath))")
    case (Some e)
    with assms(2) False have "w' = w1"
      by (simp add: writeIfChanged_def w1_def mkdir_def)
    with w1 show ?thesis by simp
  next
    case None
    with assms(1) False obtain e where "fsFault env (WriteFile outPath) = Some e" by auto
    with assms(2) False None have "w' = w1"
      by (simp add: writeIfChanged_def w1_def mkdir_def writeFile_def)
    with w1 show ?thesis by simp
  qed
qed

lemma compileFile_files:
  assumes "compileFile env file srcDir outDir verbose swcOptions w = (r, w')"
  shows "(\<exists>ls e. compileInMemory env file srcDir outDir swcOptions = Inl (ls, e) \<and>
            files w' = files w \<and> mtime w' = mtime w)
       \<or> (\<exists>fixedCode sourceMap q v.
            compileInMemory env file srcDir outDir swcOptions = Inr (fixedCode, sourceMap) \<and>
            writeIfChanged env (outPathOf env srcDir outDir file) verbose fixedCode sourceMap w = (q, v) \<and>
            files w' = files v \<and> mtime w' = mtime v)"
proof (cases "compileInMemory env file srcDir outDir swcOptions")
  case (Inl a)
  with assms show ?thesis
    by (cases a) (auto simp: compileFile_def compileFileBody_def)
next
  case (Inr b)
  obtain fixedCode sourceMap where b: "b = (fixedCode, sourceMap)" by (cases b)
  obtain q v where s: "writeIfChanged env (outPathOf env srcDir outDir file) verbose fixedCode sourceMap w = (q, v)"
    by (cases "writeIfChanged env (outPathOf env srcDir outDir file) verbose fixedCode sourceMap w")
  with assms Inr b have "files w' = files v \<and> mtime w' = mtime v"
    by (cases q) (auto simp: compileFile_def compileFileBody_def)
  with Inr b s show ?thesis by simp
qed

section \<open>Running the model on the sample project\<close>

lemma sampleEnv_sel:
  "cwd sampleEnv = ''/proj''" "requireResolve sampleEnv = sampleResolve"
  "transformFile sampleEnv = sampleTransform" "fsFault sampleEnv op = None"
  by (simp_all add: sampleEnv_def)

lemmas path_eval = extname_def basename_def dirname_def isAbsolute_def relative_def resolveSegs_def
  inNodeModules_def isPackageName_def isNameChar_def isLineTerminator_def slice0_def resolve_def
  join_def normalize_def replaceTsExt_def outPathOf_def suffix_to_prefix

lemmas regex_eval = matchAt_def matchRequire_def matchImport_def matchQuoted_def matchFrom_def
  isSpaceChar_def isQuote_def rewriteImports_def

lemmas fs_eval = writeIfChanged_def existingCodeAt_def readFile_def trim_def isSpaceChar_def
  mkdir_def writeFile_def hasMap_def logLine_def Let_def sampleEnv_sel

lemmas rewriter_eval = resolveAndFixImport_def sampleEnv_sel sampleResolve_def path_eval
  isRelativeSpecifier_def isIndexFile_def insideProject_def pastExternalGuards_def Let_def

lemma sample_outPath: "outPathOf sampleEnv ''/proj/src'' ''/proj/dist'' ''/proj/src/main.ts'' = ''/proj/dist/main.js''"
  by (simp add: sampleEnv_sel path_eval)

lemma sample_inMemory: "compileInMemory sampleEnv ''/proj/src/main.ts'' ''/proj/src'' ''/proj/dist'' ()
   = Inr (''const u = require(\"./util/index.js\");'' @ CHR 0x0A # ''//# sourceMappingURL=main.js.map'', Some ''{\"version\":3}'')"
  by (simp add: compileInMemory_def sample_outPath hasMap_def sampleEnv_sel sampleTransform_def sampleResolve_def path_eval regex_eval resolveAndFixImport_def)


lemma sample_first_run: "compileFile sampleEnv ''/proj/src/main.ts'' ''/proj/src'' ''/proj/dist'' True () emptyWorld
  = (Inr (), sampleBuilt)"
  by (simp add: compileFile_def compileFileBody_def sample_inMemory sample_outPath fs_eval emptyWorld_def sampleBuilt_def)

lemma sample_second_run: "compileFile sampleEnv ''/proj/src/main.ts'' ''/proj/src'' ''/proj/dist'' True () sampleBuilt
  = (Inr (), logLine (NoOutputChange ''/proj/dist/main.js'') sampleBuilt)"
  by (simp add: compileFile_def compileFileBody_def sample_inMemory sample_outPath fs_eval sampleBuilt_def)

lemma sample_stale_run: "compileFile sampleEnv ''/proj/src/main.ts'' ''/proj/src'' ''/proj/dist'' True () sampleStale
  = (Inr (), logLine (NoOutputChange ''/proj/dist/main.js'') sampleStale)"
  by (simp add: compileFile_def compileFileBody_def sample_inMemory sample_outPath fs_eval sampleStale_def)

section \<open>Import Rewriter: the rules\<close>

lemma relative_not_package: "isRelativeSpecifier s \<Longrightarrow> \<not> isPackageName s"
  by (auto simp: isRelativeSpecifier_def isPackageName_def isNameChar_def prefix_def)

text \<open>
  What the regular expression for external libraries matches has a directory named
  \<open>node_modules\<close> on it; so a path inside the project passes the guards of the code.
\<close>

lemma splitOn_not_Nil: "splitOn c s \<noteq> []"
  by (induction s) (simp_all add: Let_def)

lemma splitOn_append: "splitOn c (u @ c # w) = splitOn c u @ splitOn c w"
proof (induction u)
  case Nil
  show ?case by (simp add: Let_def)
next
  case (Cons x u)
  have "splitOn c u \<noteq> []" by (rule splitOn_not_Nil)
  with Cons show ?case by (cases "splitOn c u") (simp_all add: Let_def)
qed

lemma splitOn_no_separator: "c \<notin> set s \<Longrightarrow> splitOn c s = [s]"
  by (induction s) (auto simp: Let_def)

lemma node_modules_segment:
  "''node_modules'' \<in> set (butlast (splitOn CHR ''/'' (u @ ''node_modules/'' @ v)))"
  if "u = [] \<or> last u = CHR ''/''"
proof -
  have nm: "splitOn CHR ''/'' (''node_modules'' @ CHR ''/'' # v)
      = [''node_modules''] @ splitOn CHR ''/'' v"
    by (subst splitOn_append) (simp add: splitOn_no_separator)
  have tail: "''node_modules'' \<in> set (butlast ([''node_modules''] @ splitOn CHR ''/'' v))"
    using splitOn_not_Nil [of "CHR ''/''" v] by (simp add: butlast_append)
  from that show ?thesis
  proof
    assume "u = []"
    with nm tail show ?thesis by simp
  next
    assume l: "last u = CHR ''/''"
    show ?thesis
    proof (cases u rule: rev_cases)
      case Nil
      with nm tail show ?thesis by simp
    next
      case (snoc u' x)
      with l have u: "u = u' @ [CHR ''/'']" by simp
      have "splitOn CHR ''/'' (u @ ''node_modules/'' @ v)
          = splitOn CHR ''/'' (u' @ CHR ''/'' # (''node_modules'' @ CHR ''/'' # v))"
        by (simp add: u)
      also have "\<dots> = splitOn CHR ''/'' u' @ splitOn CHR ''/'' (''node_modules'' @ CHR ''/'' # v)"
        by (rule splitOn_append)
      also have "\<dots> = splitOn CHR ''/'' u' @ [''node_modules''] @ splitOn CHR ''/'' v"
        by (simp only: nm)
      finally show ?thesis
        using splitOn_not_Nil [of "CHR ''/''" v] by (simp add: butlast_append)
    qed
  qed
qed

lemma inNodeModulesFrom_segment:
  "inNodeModulesFrom s \<Longrightarrow> \<exists>u v. s = u @ ''node_modules/'' @ v \<and> u \<noteq> [] \<and> last u = CHR ''/''"
proof (induction s)
  case Nil
  then show ?case by simp
next
  case (Cons a s)
  show ?case
  proof (cases "inNodeModulesFrom s")
    case True
    from Cons.IH [OF this] obtain u v
      where "s = u @ ''node_modules/'' @ v" "u \<noteq> []" "last u = CHR ''/''" by blast
    then have "a # s = (a # u) @ ''node_modules/'' @ v \<and> a # u \<noteq> [] \<and> last (a # u) = CHR ''/''"
      by simp
    then show ?thesis by blast
  next
    case False
    with Cons.prems obtain b t where s: "s = b # CHR ''/'' # t" and "prefix ''node_modules/'' t"
      by (auto split: list.splits)
    then obtain v where "t = ''node_modules/'' @ v" by (auto simp: prefix_def)
    with s have "a # s = [a, b, CHR ''/''] @ ''node_modules/'' @ v
        \<and> [a, b, CHR ''/''] \<noteq> [] \<and> last [a, b, CHR ''/''] = CHR ''/''"
      by simp
    then show ?thesis by blast
  qed
qed

lemma inNodeModules_segment:
  assumes "inNodeModules s"
  shows "''node_modules'' \<in> set (butlast (splitOn CHR ''/'' s))"
proof -
  from assms have "prefix ''node_modules/'' s \<or> inNodeModulesFrom s"
    by (simp add: inNodeModules_def)
  then show ?thesis
  proof
    assume "prefix ''node_modules/'' s"
    then obtain v where "s = [] @ ''node_modules/'' @ v" by (auto simp: prefix_def)
    with node_modules_segment [of "[]" v] show ?thesis by simp
  next
    assume "inNodeModulesFrom s"
    from inNodeModulesFrom_segment [OF this] obtain u v
      where "s = u @ ''node_modules/'' @ v" "last u = CHR ''/''" by blast
    with node_modules_segment [of u v] show ?thesis by simp
  qed
qed

lemma insideProject_pastExternalGuards:
  "insideProject env resolvedPath \<Longrightarrow> pastExternalGuards env resolvedPath"
  by (auto simp: insideProject_def pastExternalGuards_def dest: inNodeModules_segment)

text \<open>
  Claim C4. A specifier of the bare-package-name shape (an optional scope segment, then a
  package-name segment) is returned unchanged, whatever the resolver would answer; so are
  \<open>lodash\<close> and \<open>@scope/pkg\<close>.
\<close>

theorem package_name_unchanged:
  "isPackageName importPath \<Longrightarrow> resolveAndFixImport env importPath file = Inr importPath"
  by (simp add: resolveAndFixImport_def)

theorem package_name_unchanged_witness:
  "isPackageName ''lodash''
   \<and> resolveAndFixImport sampleEnv ''lodash'' ''/proj/src/main.ts'' = Inr ''lodash''
   \<and> isPackageName ''@scope/pkg''
   \<and> resolveAndFixImport sampleEnv ''@scope/pkg'' ''/proj/src/main.ts'' = Inr ''@scope/pkg''"
proof -
  have a: "isPackageName ''lodash''" by (simp add: isPackageName_def isNameChar_def)
  have b: "isPackageName ''@scope/pkg''" by (simp add: isPackageName_def isNameChar_def)
  show ?thesis
    using a b package_name_unchanged [OF a, of sampleEnv "''/proj/src/main.ts''"]
      package_name_unchanged [OF b, of sampleEnv "''/proj/src/main.ts''"]
    by simp
qed

text \<open>
  Claim C2. A relative specifier with a source extension that resolves to a non-index file
  inside the project should get \<open>.js\<close> in place of the extension. The code cuts the last
  three characters whatever the extension is: \<open>./helper.ts\<close> becomes \<open>./helper.js\<close>, but
  \<open>./comp.tsx\<close> keeps its dot and becomes \<open>./comp..js\<close>.
\<close>

theorem tsx_specifier_keeps_dot:
  "isRelativeSpecifier ''./comp.tsx''
   \<and> extname ''./comp.tsx'' = ''.tsx''
   \<and> resolve sampleEnv ''./comp.tsx'' ''/proj/src/main.ts'' = Inr ''/proj/src/comp.tsx''
   \<and> insideProject sampleEnv ''/proj/src/comp.tsx''
   \<and> pastExternalGuards sampleEnv ''/proj/src/comp.tsx''
   \<and> \<not> isIndexFile ''/proj/src/comp.tsx''
   \<and> resolveAndFixImport sampleEnv ''./comp.tsx'' ''/proj/src/main.ts'' = Inr ''./comp..js''
   \<and> resolveAndFixImport sampleEnv ''./helper.ts'' ''/proj/src/main.ts'' = Inr ''./helper.js''"
  by (simp add: rewriter_eval)

text \<open>
  Claim C3, as stated: every relative specifier whose resolution yields a file named
  \<open>index.ts\<close> or \<open>index.js\<close> gets \<open>/index.js\<close> appended. Two guards come first in the
  code. \<open>../node_modules/dep\<close> resolves to an index file below \<open>node_modules\<close> and is
  returned unchanged; so is \<open>./data.json\<close>, which names a directory with an index file.
\<close>

theorem index_suffix_counterexample:
  "isRelativeSpecifier ''../node_modules/dep''
   \<and> resolve sampleEnv ''../node_modules/dep'' ''/proj/src/main.ts''
       = Inr ''/proj/node_modules/dep/index.js''
   \<and> isIndexFile ''/proj/node_modules/dep/index.js''
   \<and> resolveAndFixImport sampleEnv ''../node_modules/dep'' ''/proj/src/main.ts''
       = Inr ''../node_modules/dep''
   \<and> isRelativeSpecifier ''./data.json''
   \<and> resolve sampleEnv ''./data.json'' ''/proj/src/main.ts'' = Inr ''/proj/src/data.json/index.js''
   \<and> isIndexFile ''/proj/src/data.json/index.js''
   \<and> insideProject sampleEnv ''/proj/src/data.json/index.js''
   \<and> resolveAndFixImport sampleEnv ''./data.json'' ''/proj/src/main.ts'' = Inr ''./data.json''"
  by (simp add: rewriter_eval)

text \<open>
  Claim C3, amended. For a relative specifier without a \<open>.json\<close> extension that resolves to
  a file inside the project (an absolute path with no directory named \<open>node_modules\<close> on
  its path relative to the working directory): when the resolved file is named \<open>index.ts\<close>
  or \<open>index.js\<close>, the result is the specifier followed by \<open>/index.js\<close>; and when the
  specifier carries no \<open>.ts\<close> or \<open>.tsx\<close> extension, \<open>/index.js\<close> is appended only in that
  case.
\<close>

theorem index_suffix_inside_project:
  assumes "isRelativeSpecifier importPath" and "extname importPath \<noteq> ''.json''"
    and "resolve env importPath file = Inr resolvedPath"
    and "insideProject env resolvedPath"
  shows "(isIndexFile resolvedPath \<longrightarrow>
            resolveAndFixImport env importPath file = Inr (importPath @ ''/index.js''))
       \<and> (extname importPath \<notin> {''.ts'', ''.tsx''} \<longrightarrow>
            (resolveAndFixImport env importPath file = Inr (importPath @ ''/index.js'')
               \<longleftrightarrow> isIndexFile resolvedPath))"
  using assms relative_not_package [of importPath]
    insideProject_pastExternalGuards [of env resolvedPath]
  by (simp add: resolveAndFixImport_def pastExternalGuards_def isIndexFile_def Let_def)

theorem index_suffix_inside_project_witness:
  "isRelativeSpecifier ''./util'' \<and> extname ''./util'' \<noteq> ''.json''
   \<and> resolve sampleEnv ''./util'' ''/proj/src/main.ts'' = Inr ''/proj/src/util/index.ts''
   \<and> insideProject sampleEnv ''/proj/src/util/index.ts''
   \<and> isIndexFile ''/proj/src/util/index.ts''
   \<and> resolveAndFixImport sampleEnv ''./util'' ''/proj/src/main.ts'' = Inr ''./util/index.js''"
proof -
  have a: "isRelativeSpecifier ''./util''" by (simp add: isRelativeSpecifier_def)
  have b: "extname ''./util'' \<noteq> ''.json''" by (simp add: path_eval)
  have c: "resolve sampleEnv ''./util'' ''/proj/src/main.ts'' = Inr ''/proj/src/util/index.ts''"
    by (simp add: sampleEnv_sel sampleResolve_def path_eval)
  have d: "insideProject sampleEnv ''/proj/src/util/index.ts''"
    by (simp add: insideProject_def sampleEnv_sel path_eval Let_def)
  have e: "isIndexFile ''/proj/src/util/index.ts''" by (simp add: isIndexFile_def path_eval)
  from index_suffix_inside_project [OF a b c d] e
  have "resolveAndFixImport sampleEnv ''./util'' ''/proj/src/main.ts'' = Inr (''./util'' @ ''/index.js'')"
    by blast
  with a b c d e show ?thesis by simp
qed

section \<open>File Compiler: content-stable writes\<close>

text \<open>
  Claim C1. Compiling the same file twice, with the same engine, resolver and options,
  leaves the output tree after the second run as the first run left it: the same file
  contents and the same modification times, so the second run wrote nothing.
\<close>

theorem compileFile_idempotent:
  assumes first: "compileFile env file srcDir outDir verbose swcOptions w = (r1, w1)"
      and second: "compileFile env file srcDir outDir verbose swcOptions w1 = (r2, w2)"
  shows "files w2 = files w1 \<and> mtime w2 = mtime w1"
proof (cases "compileInMemory env file srcDir outDir swcOptions")
  case (Inl a)
  with compileFile_files [OF second] show ?thesis by auto
next
  case (Inr b)
  let ?out = "outPathOf env srcDir outDir file"
  obtain fixedCode sourceMap where b: "b = (fixedCode, sourceMap)" by (cases b)
  from compileFile_files [OF first] Inr b obtain q1 v1
    where s1: "writeIfChanged env ?out verbose fixedCode sourceMap w = (q1, v1)"
      and w1: "files w1 = files v1" "mtime w1 = mtime v1"
    by auto
  from compileFile_files [OF second] Inr b obtain q2 v2
    where s2: "writeIfChanged env ?out verbose fixedCode sourceMap w1 = (q2, v2)"
      and w2: "files w2 = files v2" "mtime w2 = mtime v2"
    by auto
  have skip: "trim fixedCode = trim (existingCodeAt w1 ?out) \<or>
             fsFault env (Mkdir (dirname ?out)) \<noteq> None \<or>
             fsFault env (WriteFile ?out) \<noteq> None"
  proof (rule disjE [OF writeIfChanged_cases [OF s1]])
    assume a: "files v1 = files w \<and> mtime v1 = mtime w \<and>
          (trim fixedCode = trim (existingCodeAt w ?out) \<or>
           fsFault env (Mkdir (dirname ?out)) \<noteq> None \<or>
           fsFault env (WriteFile ?out) \<noteq> None)"
    then have "files w1 = files w" using w1 by simp
    then have "existingCodeAt w1 ?out = existingCodeAt w ?out"
      by (rule existingCodeAt_cong)
    with a show ?thesis by metis
  next
    assume "files v1 ?out = Some fixedCode \<and> mtime v1 ?out = Some (clock w)"
    then have "files w1 ?out = Some fixedCode" using w1 by simp
    then have "existingCodeAt w1 ?out = fixedCode"
      by (rule existingCodeAt_written)
    then show ?thesis by simp
  qed
  have "files v2 = files w1 \<and> mtime v2 = mtime w1"
    by (rule writeIfChanged_skip [OF skip s2])
  with w2 show ?thesis by simp
qed

theorem compileFile_idempotent_witness:
  "compileFile sampleEnv ''/proj/src/main.ts'' ''/proj/src'' ''/proj/dist'' True () emptyWorld
     = (Inr (), sampleBuilt)
   \<and> compileFile sampleEnv ''/proj/src/main.ts'' ''/proj/src'' ''/proj/dist'' True () sampleBuilt
     = (Inr (), logLine (NoOutputChange ''/proj/dist/main.js'') sampleBuilt)
   \<and> files (logLine (NoOutputChange ''/proj/dist/main.js'') sampleBuilt) = files sampleBuilt
   \<and> mtime (logLine (NoOutputChange ''/proj/dist/main.js'') sampleBuilt) = mtime sampleBuilt"
  using compileFile_idempotent [OF sample_first_run sample_second_run] sample_first_run sample_second_run by simp

text \<open>
  Claim C10. When the trimmed new code equals the trimmed text of the existing output
  file, neither the output file nor its map file is written, whatever the map file holds;
  and an invocation that changes the modification time of the map file has written the
  output file at its start time.
\<close>

theorem map_written_only_with_code:
  assumes run: "compileFile env file srcDir outDir verbose swcOptions w = (r, w')"
  shows "(\<forall>fixedCode sourceMap.
            compileInMemory env file srcDir outDir swcOptions = Inr (fixedCode, sourceMap) \<and>
            trim fixedCode = trim (existingCodeAt w (outPathOf env srcDir outDir file))
            \<longrightarrow> files w' = files w \<and> mtime w' = mtime w)
       \<and> (mtime w' (outPathOf env srcDir outDir file @ ''.map'')
              \<noteq> mtime w (outPathOf env srcDir outDir file @ ''.map'')
            \<longrightarrow> mtime w' (outPathOf env srcDir outDir file) = Some (clock w))"
proof (intro conjI allI impI)
  fix fixedCode sourceMap
  assume a: "compileInMemory env file srcDir outDir swcOptions = Inr (fixedCode, sourceMap) \<and>
            trim fixedCode = trim (existingCodeAt w (outPathOf env srcDir outDir file))"
  with compileFile_files [OF run] obtain q v
    where s: "writeIfChanged env (outPathOf env srcDir outDir file) verbose fixedCode sourceMap w = (q, v)"
      and v: "files w' = files v" "mtime w' = mtime v"
    by auto
  from a have "trim fixedCode = trim (existingCodeAt w (outPathOf env srcDir outDir file)) \<or>
      fsFault env (Mkdir (dirname (outPathOf env srcDir outDir file))) \<noteq> None \<or>
      fsFault env (WriteFile (outPathOf env srcDir outDir file)) \<noteq> None"
    by simp
  from writeIfChanged_skip [OF this s] v
  show "files w' = files w" and "mtime w' = mtime w" by simp_all
next
  let ?out = "outPathOf env srcDir outDir file"
  assume changed: "mtime w' (?out @ ''.map'') \<noteq> mtime w (?out @ ''.map'')"
  from compileFile_files [OF run] show "mtime w' ?out = Some (clock w)"
  proof (elim disjE exE conjE)
    fix ls e
    assume "mtime w' = mtime w"
    with changed show ?thesis by simp
  next
    fix fixedCode sourceMap q v
    assume s: "writeIfChanged env ?out verbose fixedCode sourceMap w = (q, v)"
      and v: "files w' = files v" "mtime w' = mtime v"
    from writeIfChanged_cases [OF s] changed v show ?thesis by auto
  qed
qed

theorem map_written_only_with_code_witness:
  "compileInMemory sampleEnv ''/proj/src/main.ts'' ''/proj/src'' ''/proj/dist'' ()
     = Inr (''const u = require(\"./util/index.js\");'' @ CHR 0x0A # ''//# sourceMappingURL=main.js.map'',
            Some ''{\"version\":3}'')
   \<and> files sampleStale ''/proj/dist/main.js.map'' = Some ''{\"version\":2}''
   \<and> compileFile sampleEnv ''/proj/src/main.ts'' ''/proj/src'' ''/proj/dist'' True () sampleStale
     = (Inr (), logLine (NoOutputChange ''/proj/dist/main.js'') sampleStale)
   \<and> files (logLine (NoOutputChange ''/proj/dist/main.js'') sampleStale) = files sampleStale
   \<and> mtime (logLine (NoOutputChange ''/proj/dist/main.js'') sampleStale) = mtime sampleStale"
proof -
  have same: "trim (''const u = require(\"./util/index.js\");'' @ CHR 0x0A # ''//# sourceMappingURL=main.js.map'')
      = trim (existingCodeAt sampleStale (outPathOf sampleEnv ''/proj/src'' ''/proj/dist'' ''/proj/src/main.ts''))"
    by (simp add: sample_outPath existingCodeAt_def readFile_def sampleStale_def trim_def isSpaceChar_def)
  have old: "files sampleStale ''/proj/dist/main.js.map'' = Some ''{\"version\":2}''"
    by (simp add: sampleStale_def)
  from map_written_only_with_code [OF sample_stale_run] sample_inMemory same
  have "files (logLine (NoOutputChange ''/proj/dist/main.js'') sampleStale) = files sampleStale
      \<and> mtime (logLine (NoOutputChange ''/proj/dist/main.js'') sampleStale) = mtime sampleStale"
    by blast
  with sample_inMemory old sample_stale_run show ?thesis by blast
qed

section \<open>File Compiler and Batch Builder: failure isolation\<close>

lemma compileFile_fst: "fst (compileFile env file srcDir outDir verbose swcOptions w) = Inr ()"
  by (simp add: compileFile_def split: prod.splits sum.splits)

lemma compileAll_foldl:
  "compileAll env srcDir outDir verbose swcOptions batch w =
     (Inr (), foldl (\<lambda>w f. snd (compileFile env f srcDir outDir verbose swcOptions w)) w batch)"
proof (induction batch arbitrary: w)
  case Nil
  show ?case by simp
next
  case (Cons f batch)
  obtain r w' where c: "compileFile env f srcDir outDir verbose swcOptions w = (r, w')"
    by (cases "compileFile env f srcDir outDir verbose swcOptions w")
  with compileFile_fst [of env f srcDir outDir verbose swcOptions w] have "r = Inr ()" by simp
  with c Cons.IH [of w'] show ?case by simp
qed

text \<open>
  Claim C5. The promise of \<open>compileFile\<close> is never rejected: an error thrown in the
  \<open>try\<close> block (by the engine, by import resolution, by a directory creation or a write)
  is caught and printed with the file's path; a failed read of the existing output never
  leaves \<open>existingCodeAt\<close>, where it counts as empty text. Hence a batch runs the compile
  of every file of its list, each on the state the previous ones left, and is not rejected
  either.
\<close>

theorem compileFile_never_rejects:
  "fst (compileFile env file srcDir outDir verbose swcOptions w) = Inr ()
   \<and> (\<forall>e w'. compileFileBody env file srcDir outDir verbose swcOptions w = (Inl e, w')
        \<longrightarrow> snd (compileFile env file srcDir outDir verbose swcOptions w)
              = logLine (CompileError file e) w')
   \<and> compileAll env srcDir outDir verbose swcOptions batch w
       = (Inr (), foldl (\<lambda>w f. snd (compileFile env f srcDir outDir verbose swcOptions w)) w batch)
   \<and> fst (runBuild env srcDir outDir verbose excludePatterns swcOptions w) = Inr ()"
proof (intro conjI allI impI)
  show "fst (compileFile env file srcDir outDir verbose swcOptions w) = Inr ()"
    by (rule compileFile_fst)
next
  fix e w'
  assume "compileFileBody env file srcDir outDir verbose swcOptions w = (Inl e, w')"
  then show "snd (compileFile env file srcDir outDir verbose swcOptions w)
      = logLine (CompileError file e) w'"
    by (simp add: compileFile_def)
next
  show "compileAll env srcDir outDir verbose swcOptions batch w
       = (Inr (), foldl (\<lambda>w f. snd (compileFile env f srcDir outDir verbose swcOptions w)) w batch)"
    by (rule compileAll_foldl)
next
  show "fst (runBuild env srcDir outDir verbose excludePatterns swcOptions w) = Inr ()"
    by (simp add: runBuild_def compileAll_foldl Let_def)
qed

lemma faultyEnv_sel:
  "cwd faultyEnv = ''/proj''" "requireResolve faultyEnv = sampleResolve"
  "transformFile faultyEnv = sampleTransform"
  "fsFault faultyEnv op = (if op = WriteFile ''/proj/dist/helper.js''
             then Some (FsError ''EACCES'' ''/proj/dist/helper.js'') else None)"
  by (simp_all add: faultyEnv_def sampleEnv_def)

lemmas faulty_eval = compileFile_def compileFileBody_def compileInMemory_def faultyEnv_sel
  sampleTransform_def sampleResolve_def resolveAndFixImport_def path_eval regex_eval
  writeIfChanged_def existingCodeAt_def readFile_def trim_def mkdir_def writeFile_def hasMap_def
  logLine_def Let_def

lemma batch_run:
  "foldl (\<lambda>w f. snd (compileFile faultyEnv f ''/proj/src'' ''/proj/dist'' False () w)) emptyWorld
     [''/proj/src/broken.ts'', ''/proj/src/bad.ts'', ''/proj/src/helper.ts'', ''/proj/src/main.ts'']
   = sampleBatchResult"
  by (simp add: faulty_eval emptyWorld_def sampleBatchResult_def)

theorem compileFile_never_rejects_witness:
  "compileFileBody faultyEnv ''/proj/src/broken.ts'' ''/proj/src'' ''/proj/dist'' False () emptyWorld
     = (Inl (EngineError ''/proj/src/broken.ts''), emptyWorld)
   \<and> compileFile faultyEnv ''/proj/src/broken.ts'' ''/proj/src'' ''/proj/dist'' False () emptyWorld
     = (Inr (), logLine (CompileError ''/proj/src/broken.ts'' (EngineError ''/proj/src/broken.ts'')) emptyWorld)
   \<and> compileAll faultyEnv ''/proj/src'' ''/proj/dist'' False ()
       [''/proj/src/broken.ts'', ''/proj/src/bad.ts'', ''/proj/src/helper.ts'', ''/proj/src/main.ts'']
       emptyWorld
     = (Inr (), sampleBatchResult)"
proof -
  have body: "compileFileBody faultyEnv ''/proj/src/broken.ts'' ''/proj/src'' ''/proj/dist'' False () emptyWorld
     = (Inl (EngineError ''/proj/src/broken.ts''), emptyWorld)"
    by (simp add: faulty_eval emptyWorld_def)
  note inst = compileFile_never_rejects [of faultyEnv "''/proj/src/broken.ts''" "''/proj/src''"
      "''/proj/dist''" False "()" emptyWorld
      "[''/proj/src/broken.ts'', ''/proj/src/bad.ts'', ''/proj/src/helper.ts'', ''/proj/src/main.ts'']"]
  from inst body have one: "compileFile faultyEnv ''/proj/src/broken.ts'' ''/proj/src'' ''/proj/dist'' False () emptyWorld
     = (Inr (), logLine (CompileError ''/proj/src/broken.ts'' (EngineError ''/proj/src/broken.ts'')) emptyWorld)"
    by (metis prod.collapse)
  from inst batch_run have "compileAll faultyEnv ''/proj/src'' ''/proj/dist'' False ()
       [''/proj/src/broken.ts'', ''/proj/src/bad.ts'', ''/proj/src/helper.ts'', ''/proj/src/main.ts'']
       emptyWorld = (Inr (), sampleBatchResult)"
    by simp
  with body one show ?thesis by blast
qed

section \<open>The mapping from source path to output path\<close>

lemma splitOn_absPath:
  "CHR ''/'' \<notin> set s0 \<Longrightarrow> list_all cleanSegment segs \<Longrightarrow>
     splitOn CHR ''/'' (s0 @ absPath segs) = s0 # segs"
proof (induction segs arbitrary: s0)
  case Nil
  then show ?case by (induction s0) (auto simp: absPath_def Let_def)
next
  case (Cons a segs)
  from Cons.prems have a: "CHR ''/'' \<notin> set a" by (simp add: cleanSegment_def)
  from Cons.prems have segs: "list_all cleanSegment segs" by simp
  have tail: "splitOn CHR ''/'' (a @ absPath segs) = a # segs"
    by (rule Cons.IH [OF a segs])
  from Cons.prems(1) show ?case
  proof (induction s0)
    case Nil
    with tail show ?case by (simp add: absPath_def)
  next
    case (Cons c s0)
    then show ?case by (auto simp: Let_def)
  qed
qed

lemma normalizeSegs_clean:
  "list_all cleanSegment segs \<Longrightarrow> normalizeSegs allow acc segs = rev acc @ segs"
  by (induction segs arbitrary: acc) (simp_all add: cleanSegment_def)

lemma absPath_Cons: "absPath (s # segs) = CHR ''/'' # s @ absPath segs"
  by (simp add: absPath_def)

lemma absPath_append: "absPath (xs @ ys) = absPath xs @ absPath ys"
  by (simp add: absPath_def)

lemma absPath_joinSlash: "segs \<noteq> [] \<Longrightarrow> absPath segs = CHR ''/'' # joinSlash segs"
  by (induction segs rule: joinSlash.induct) (simp_all add: absPath_def)

lemma resolveSegs_absPath:
  assumes "list_all cleanSegment segs" and "segs \<noteq> []"
  shows "resolveSegs wd (absPath segs) = segs"
proof -
  from assms(2) have abs: "isAbsolute (absPath segs)"
    by (cases segs) (simp_all add: isAbsolute_def absPath_def)
  have "splitOn CHR ''/'' ([] @ absPath segs) = [] # segs"
    by (rule splitOn_absPath) (simp_all add: assms)
  with abs assms(1) show ?thesis
    by (simp add: resolveSegs_def normalizeSegs_clean)
qed

lemma stripCommon_Nil: "stripCommon [] ys = ([], ys)"
  by (cases ys) simp_all

lemma stripCommon_prefix: "stripCommon xs (xs @ ys) = ([], ys)"
  by (induction xs) (simp_all add: stripCommon_Nil)

lemma relative_under_root:
  assumes "list_all cleanSegment src" "src \<noteq> []" "list_all cleanSegment rel" "rel \<noteq> []"
  shows "relative wd (absPath src) (absPath (src @ rel)) = joinSlash rel"
proof -
  from assms(4) have "absPath rel \<noteq> []" by (cases rel) (simp_all add: absPath_def)
  then have ne: "absPath src \<noteq> absPath (src @ rel)" by (simp add: absPath_append)
  have "resolveSegs wd (absPath src) = src" by (rule resolveSegs_absPath) fact+
  moreover have "resolveSegs wd (absPath (src @ rel)) = src @ rel"
    by (rule resolveSegs_absPath) (simp_all add: assms)
  ultimately show ?thesis using ne by (simp add: relative_def stripCommon_prefix)
qed

lemma last_absPath:
  assumes "list_all cleanSegment segs" "segs \<noteq> []"
  shows "absPath segs \<noteq> [] \<and> last (absPath segs) \<noteq> CHR ''/''"
proof -
  from assms(2) obtain xs x where segs: "segs = xs @ [x]" by (metis rev_exhaust)
  with assms(1) have x: "x \<noteq> []" "CHR ''/'' \<notin> set x" by (simp_all add: cleanSegment_def)
  have "absPath segs = (absPath xs @ ''/'') @ x" by (simp add: segs absPath_append absPath_def)
  with x show ?thesis by (metis append_is_Nil_conv last_appendR last_in_set)
qed

lemma normalize_absPath:
  assumes "list_all cleanSegment segs" "segs \<noteq> []"
  shows "normalize (absPath segs) = absPath segs"
proof -
  from assms(2) have abs: "isAbsolute (absPath segs)"
    by (cases segs) (simp_all add: isAbsolute_def absPath_def)
  have split: "splitOn CHR ''/'' ([] @ absPath segs) = [] # segs"
    by (rule splitOn_absPath) (simp_all add: assms)
  from assms have js: "joinSlash segs \<noteq> []"
    by (cases segs rule: joinSlash.cases) (simp_all add: cleanSegment_def)
  from last_absPath [OF assms] abs split js assms(1) show ?thesis
    by (simp add: normalize_def Let_def normalizeSegs_clean absPath_joinSlash [OF assms(2)])
qed

lemma join_under_root:
  assumes "list_all cleanSegment out" "out \<noteq> []" "list_all cleanSegment rel" "rel \<noteq> []"
  shows "join (absPath out) (joinSlash rel) = absPath (out @ rel)"
proof -
  from assms(3,4) have js: "joinSlash rel \<noteq> []"
    by (cases rel rule: joinSlash.cases) (simp_all add: cleanSegment_def)
  from assms(2) have ao: "absPath out \<noteq> []" by (cases out) (simp_all add: absPath_def)
  have "absPath out @ CHR ''/'' # joinSlash rel = absPath (out @ rel)"
    by (simp add: absPath_append absPath_joinSlash [OF assms(4)])
  moreover have "normalize (absPath (out @ rel)) = absPath (out @ rel)"
    by (rule normalize_absPath) (simp_all add: assms)
  ultimately show ?thesis using js ao by (simp add: join_def)
qed

lemma replaceTsExt_stem: "isSourceName s \<Longrightarrow> replaceTsExt s = withoutSourceExt s @ ''.js''"
  by (auto simp: replaceTsExt_def withoutSourceExt_def isSourceName_def)

lemma isSourceName_append: "isSourceName s \<Longrightarrow> isSourceName (a @ s)"
  by (auto simp: isSourceName_def suffix_def)

lemma withoutSourceExt_append:
  "isSourceName s \<Longrightarrow> withoutSourceExt (a @ s) = a @ withoutSourceExt s"
  by (auto simp: isSourceName_def withoutSourceExt_def slice0_def suffix_def)

lemma isSourceName_absPath:
  assumes "rel \<noteq> []" "isSourceName (last rel)"
  shows "isSourceName (absPath rel)"
proof -
  from assms(1) obtain xs x where rel: "rel = xs @ [x]" by (metis rev_exhaust)
  with assms(2) have "isSourceName x" by simp
  then have "isSourceName ((absPath xs @ ''/'') @ x)" by (rule isSourceName_append)
  then show ?thesis by (simp add: rel absPath_append absPath_def)
qed

lemma outPathOf_under_root:
  assumes "list_all cleanSegment src" "src \<noteq> []" "list_all cleanSegment out" "out \<noteq> []"
    and "list_all cleanSegment rel" "rel \<noteq> []" "isSourceName (last rel)"
  shows "outPathOf env (absPath src) (absPath out) (absPath (src @ rel))
           = absPath out @ withoutSourceExt (absPath rel) @ ''.js''"
proof -
  have src: "isSourceName (absPath rel)" by (rule isSourceName_absPath) fact+
  then have "isSourceName (absPath out @ absPath rel)" by (rule isSourceName_append)
  then have "replaceTsExt (absPath out @ absPath rel)
      = withoutSourceExt (absPath out @ absPath rel) @ ''.js''"
    by (rule replaceTsExt_stem)
  also have "\<dots> = (absPath out @ withoutSourceExt (absPath rel)) @ ''.js''"
    by (simp only: withoutSourceExt_append [OF src])
  finally have ext: "replaceTsExt (absPath out @ absPath rel)
      = absPath out @ withoutSourceExt (absPath rel) @ ''.js''"
    by simp
  have "relative (cwd env) (absPath src) (absPath (src @ rel)) = joinSlash rel"
    by (rule relative_under_root) fact+
  moreover have "join (absPath out) (joinSlash rel) = absPath (out @ rel)"
    by (rule join_under_root) fact+
  ultimately have "outPathOf env (absPath src) (absPath out) (absPath (src @ rel))
      = replaceTsExt (absPath out @ absPath rel)"
    by (simp only: outPathOf_def absPath_append)
  with ext show ?thesis by simp
qed

lemma sample_outPaths:
  "outPathOf sampleEnv ''/proj/src'' ''/proj/dist'' ''/proj/src/a.ts'' = ''/proj/dist/a.js''"
  "outPathOf sampleEnv ''/proj/src'' ''/proj/dist'' ''/proj/src/a.tsx'' = ''/proj/dist/a.js''"
  by (simp_all add: sampleEnv_sel path_eval)

text \<open>
  Claim C8, as stated: the mapping from source path to output path is injective on the
  enumerated source files. Both \<open>a.ts\<close> and \<open>a.tsx\<close> are enumerated by the pattern
  \<open>*.{ts,tsx}\<close>, and both are mapped to \<open>a.js\<close>.
\<close>

theorem outPath_not_injective:
  "isSourceName ''/proj/src/a.ts'' \<and> isSourceName ''/proj/src/a.tsx''
   \<and> ''/proj/src/a.ts'' \<noteq> ''/proj/src/a.tsx''
   \<and> outPathOf sampleEnv ''/proj/src'' ''/proj/dist'' ''/proj/src/a.ts''
     = outPathOf sampleEnv ''/proj/src'' ''/proj/dist'' ''/proj/src/a.tsx''"
  by (simp add: sample_outPaths isSourceName_def suffix_to_prefix)

text \<open>
  Claim C8, amended. For source and output roots other than the file system root, two
  enumerated source files that are mapped to the same output path are the same path up to
  the extension \<open>.ts\<close> or \<open>.tsx\<close>: the mapping is injective on every set of enumerated
  files that does not hold both \<open>x.ts\<close> and \<open>x.tsx\<close> for one \<open>x\<close>.
\<close>

theorem outPath_collision_same_stem:
  assumes roots: "list_all cleanSegment src" "src \<noteq> []" "list_all cleanSegment out" "out \<noteq> []"
    and file1: "list_all cleanSegment rel1" "rel1 \<noteq> []" "isSourceName (last rel1)"
    and file2: "list_all cleanSegment rel2" "rel2 \<noteq> []" "isSourceName (last rel2)"
    and same: "outPathOf env (absPath src) (absPath out) (absPath (src @ rel1))
             = outPathOf env (absPath src) (absPath out) (absPath (src @ rel2))"
  shows "withoutSourceExt (absPath (src @ rel1)) = withoutSourceExt (absPath (src @ rel2))"
proof -
  have s1: "isSourceName (absPath rel1)" by (rule isSourceName_absPath) fact+
  have s2: "isSourceName (absPath rel2)" by (rule isSourceName_absPath) fact+
  from same have "absPath out @ withoutSourceExt (absPath rel1) @ ''.js''
      = absPath out @ withoutSourceExt (absPath rel2) @ ''.js''"
    by (simp only: outPathOf_under_root [OF roots file1] outPathOf_under_root [OF roots file2])
  then have "withoutSourceExt (absPath rel1) = withoutSourceExt (absPath rel2)" by simp
  then show ?thesis
    by (simp add: absPath_append withoutSourceExt_append [OF s1] withoutSourceExt_append [OF s2])
qed

theorem outPath_collision_same_stem_witness:
  "list_all cleanSegment [''proj'', ''src''] \<and> list_all cleanSegment [''proj'', ''dist'']
   \<and> list_all cleanSegment [''a.ts''] \<and> isSourceName (last [''a.ts''])
   \<and> list_all cleanSegment [''a.tsx''] \<and> isSourceName (last [''a.tsx''])
   \<and> outPathOf sampleEnv (absPath [''proj'', ''src'']) (absPath [''proj'', ''dist''])
         (absPath ([''proj'', ''src''] @ [''a.ts'']))
     = outPathOf sampleEnv (absPath [''proj'', ''src'']) (absPath [''proj'', ''dist''])
         (absPath ([''proj'', ''src''] @ [''a.tsx'']))
   \<and> withoutSourceExt (absPath ([''proj'', ''src''] @ [''a.ts''])) = ''/proj/src/a''
   \<and> withoutSourceExt (absPath ([''proj'', ''src''] @ [''a.tsx''])) = ''/proj/src/a''"
proof -
  have r: "list_all cleanSegment [''proj'', ''src'']" "[''proj'', ''src''] \<noteq> []"
    "list_all cleanSegment [''proj'', ''dist'']" "[''proj'', ''dist''] \<noteq> []"
    by (simp_all add: cleanSegment_def)
  have f1: "list_all cleanSegment [''a.ts'']" "[''a.ts''] \<noteq> []" "isSourceName (last [''a.ts''])"
    by (simp_all add: cleanSegment_def isSourceName_def suffix_to_prefix)
  have f2: "list_all cleanSegment [''a.tsx'']" "[''a.tsx''] \<noteq> []" "isSourceName (last [''a.tsx''])"
    by (simp_all add: cleanSegment_def isSourceName_def suffix_to_prefix)
  have same: "outPathOf sampleEnv (absPath [''proj'', ''src'']) (absPath [''proj'', ''dist''])
         (absPath ([''proj'', ''src''] @ [''a.ts'']))
     = outPathOf sampleEnv (absPath [''proj'', ''src'']) (absPath [''proj'', ''dist''])
         (absPath ([''proj'', ''src''] @ [''a.tsx'']))"
    by (simp add: absPath_def sample_outPaths)
  have stem: "withoutSourceExt (absPath ([''proj'', ''src''] @ [''a.ts''])) = ''/proj/src/a''"
    by (simp add: absPath_def withoutSourceExt_def slice0_def suffix_to_prefix)
  from outPath_collision_same_stem [OF r f1 f2 same] stem
  have "withoutSourceExt (absPath ([''proj'', ''src''] @ [''a.tsx''])) = ''/proj/src/a''"
    by simp
  with r f1 f2 same stem show ?thesis by blast
qed

section \<open>Exclusion\<close>

lemma sampleEnv_glob:
  "glob sampleEnv = sampleGlob ''/proj''" "isMatch sampleEnv = sampleMatch"
  by (simp_all add: sampleEnv_def)

lemma ignored_when_matched:
  "isMatch env filePath excludePatterns \<Longrightarrow> ignored env excludePatterns filePath isFile"
  by (simp add: ignored_def)

lemma sample_gen_inMemory:
  "compileInMemory sampleEnv ''/proj/src/gen/api.ts'' ''/proj/src'' ''/proj/dist'' ()
     = Inr (''exports.api = 1;'', None)"
  by (simp add: compileInMemory_def hasMap_def sampleEnv_sel sampleTransform_def path_eval
      regex_eval)

text \<open>
  Claim C6. A path that matches an exclude pattern should never be compiled. The batch
  hands the exclude patterns to the enumerator, which matches a relative pattern below the
  working directory: with the exclude \<open>src/gen/**\<close> of a project at \<open>/proj\<close>, the file
  \<open>/proj/src/gen/api.ts\<close> is not enumerated. The watcher's \<open>ignored\<close> predicate hands the
  same patterns to the pattern matcher together with the path as the watcher gives it,
  which the relative pattern does not match, neither as an absolute path nor relative to
  the source directory: a \<open>change\<close> of that file compiles it and writes its output.
\<close>

theorem excluded_file_compiled_on_change:
  "enumerate_sources sampleEnv ''/proj/src'' [''src/gen/**'']
     = [''/proj/src/main.ts'', ''/proj/src/broken.ts'', ''/proj/src/bad.ts'', ''/proj/src/helper.ts'']
   \<and> ''/proj/src/gen/api.ts'' \<notin> set (enumerate_sources sampleEnv ''/proj/src'' [''src/gen/**''])
   \<and> \<not> ignored sampleEnv [''src/gen/**''] ''/proj/src/gen/api.ts'' (Some True)
   \<and> \<not> ignored sampleEnv [''src/gen/**''] ''gen/api.ts'' (Some True)
   \<and> watchStep sampleEnv ''/proj/src'' ''/proj/dist'' False [''src/gen/**''] ()
        (Change sampleGenEvent) emptyWorld = (Inr (), sampleGenCompiled)
   \<and> files sampleGenCompiled ''/proj/dist/gen/api.js'' = Some ''exports.api = 1;''"
proof -
  have enum: "enumerate_sources sampleEnv ''/proj/src'' [''src/gen/**'']
     = [''/proj/src/main.ts'', ''/proj/src/broken.ts'', ''/proj/src/bad.ts'', ''/proj/src/helper.ts'']"
    by (simp add: enumerate_sources_def sampleEnv_glob sampleGlob_def sampleMatch_def
        isAbsolute_def slice0_def suffix_to_prefix)
  have abs: "\<not> ignored sampleEnv [''src/gen/**''] ''/proj/src/gen/api.ts'' (Some True)"
    by (simp add: ignored_def sampleEnv_glob sampleMatch_def basename_def slice0_def
        suffix_to_prefix)
  have rel: "\<not> ignored sampleEnv [''src/gen/**''] ''gen/api.ts'' (Some True)"
    by (simp add: ignored_def sampleEnv_glob sampleMatch_def basename_def slice0_def
        suffix_to_prefix)
  have out: "outPathOf sampleEnv ''/proj/src'' ''/proj/dist'' ''/proj/src/gen/api.ts''
      = ''/proj/dist/gen/api.js''"
    by (simp add: sampleEnv_sel path_eval)
  have path: "join ''/proj/src'' (relative ''/proj'' ''/proj/src'' ''/proj/src/gen/api.ts'')
      = ''/proj/src/gen/api.ts''"
    by (simp add: path_eval)
  have step: "watchStep sampleEnv ''/proj/src'' ''/proj/dist'' False [''src/gen/**''] ()
        (Change sampleGenEvent) emptyWorld = (Inr (), sampleGenCompiled)"
    using abs
    by (simp add: watchStep_def watchDispatch_def onAddOrChange_def sampleGenEvent_def path
        compileFile_def compileFileBody_def sample_gen_inMemory out fs_eval emptyWorld_def
        sampleGenCompiled_def)
  have written: "files sampleGenCompiled ''/proj/dist/gen/api.js'' = Some ''exports.api = 1;''"
    by (simp add: sampleGenCompiled_def)
  from enum abs rel step written show ?thesis by simp
qed

section \<open>Shutdown and startup errors\<close>

lemmas coordinator_eval = coordinatorRun_def coordinatorStep_def handleShutdown_def onTimeout_def
  runListener_def kill_def processExit_def sampleCoordinator_def coordinatorMain_def Let_def
  dirname_def join_def normalize_def isAbsolute_def

text \<open>
  Claim C7. After a termination request the coordinator sends \<open>SIGTERM\<close> to the child's
  process group and arms the timeout; when the timeout fires first it sends \<open>SIGKILL\<close> and
  exits with status 1. When the child exits first, the listener that \<open>main\<close> registered
  runs before the one \<open>handleShutdown\<close> added, and ends the process with the child's exit
  code: 0 only when the child reported none or 0, here 143; the timeout is never cleared.
\<close>

theorem shutdown_exits_with_child_code:
  "exitStatus (coordinatorRun (\<lambda>_ _. True) [Shutdown SIGTERM, ChildExit (Some 143)] sampleCoordinator)
     = Some 143
   \<and> timeouts (coordinatorRun (\<lambda>_ _. True) [Shutdown SIGTERM, ChildExit (Some 143)] sampleCoordinator)
     = [0]
   \<and> signalsSent (coordinatorRun (\<lambda>_ _. True) [Shutdown SIGTERM, ChildExit (Some 143)] sampleCoordinator)
     = [(4242, SIGTERM)]
   \<and> exitStatus (coordinatorRun (\<lambda>_ _. True) [Shutdown SIGTERM, ChildExit None] sampleCoordinator)
     = Some 0
   \<and> exitStatus (coordinatorRun (\<lambda>_ _. True) [Shutdown SIGINT, TimeoutFired 0] sampleCoordinator)
     = Some 1
   \<and> signalsSent (coordinatorRun (\<lambda>_ _. True) [Shutdown SIGINT, TimeoutFired 0] sampleCoordinator)
     = [(4242, SIGTERM), (4242, SIGKILL)]"
  by (simp add: coordinator_eval)

lemmas worker_eval = workerStep_def workerMain_def startTsc_def tscOnExit_def tscOnError_def
  mainCatch_def Let_def

text \<open>
  Claim C9, as stated: a declaration subprocess that fails at startup ends the whole run
  with a nonzero status. In watch mode the worker keeps running and starts the subprocess
  again after the backoff.
\<close>

theorem tsc_failure_restarts_in_watch_mode:
  "workerExit (workerStep False (TscExit (Some 127)) (workerMain True)) = None
   \<and> backoffArmed (workerStep False (TscExit (Some 127)) (workerMain True))
   \<and> workerExit (workerStep False BackoffElapsed
         (workerStep False (TscExit (Some 127)) (workerMain True))) = None
   \<and> tscStarts (workerStep False BackoffElapsed
         (workerStep False (TscExit (Some 127)) (workerMain True))) = 2"
  by (simp add: worker_eval)

text \<open>
  Claim C9, amended. When neither worker script exists the coordinator prints the failure
  and exits with status 1 without spawning a child. When the declaration subprocess exits
  with a code other than 0, the worker exits with status 1 in build mode; in watch mode it
  keeps running and the retry is armed.
\<close>

theorem startup_errors:
  assumes "pickExisting existsSync
             [join (dirname script) ''./swc-ts-build.ts'', join (dirname script) ''./swc-ts-build.js'']
           = None"
      and "code \<noteq> Some 0"
  shows "exitStatus (coordinatorMain existsSync findBinPath pid (script # args)) = Some 1
       \<and> childCommand (coordinatorMain existsSync findBinPath pid (script # args)) = []
       \<and> workerExit (workerStep verbose (TscExit code) (workerMain False)) = Some 1
       \<and> workerExit (workerStep verbose (TscExit code) (workerMain True)) = None
       \<and> backoffArmed (workerStep verbose (TscExit code) (workerMain True))"
  using assms by (simp add: coordinatorMain_def processExit_def worker_eval)

theorem startup_errors_witness:
  "pickExisting (\<lambda>p. False)
     [join (dirname ''/proj/bin/swc-ts.js'') ''./swc-ts-build.ts'',
      join (dirname ''/proj/bin/swc-ts.js'') ''./swc-ts-build.js''] = None
   \<and> exitStatus (coordinatorMain (\<lambda>p. False) (\<lambda>name. Inr ''/proj/node_modules/.bin/tsx'')
        (Some 4242) [''/proj/bin/swc-ts.js'', ''-w'']) = Some 1
   \<and> printed (coordinatorMain (\<lambda>p. False) (\<lambda>name. Inr ''/proj/node_modules/.bin/tsx'')
        (Some 4242) [''/proj/bin/swc-ts.js'', ''-w'']) = [FailedToFindScript]
   \<and> workerExit (workerStep False (TscExit (Some 127)) (workerMain False)) = Some 1
   \<and> workerPrinted (workerStep False (TscExit (Some 127)) (workerMain False))
       = [TscStarting, MainFailed (ProcessExited (Some 127))]"
proof -
  have a: "pickExisting (\<lambda>p. False)
     [join (dirname ''/proj/bin/swc-ts.js'') ''./swc-ts-build.ts'',
      join (dirname ''/proj/bin/swc-ts.js'') ''./swc-ts-build.js''] = None"
    by simp
  have b: "Some (127::int) \<noteq> Some 0" by simp
  have c: "printed (coordinatorMain (\<lambda>p. False) (\<lambda>name. Inr ''/proj/node_modules/.bin/tsx'')
        (Some 4242) [''/proj/bin/swc-ts.js'', ''-w'']) = [FailedToFindScript]"
    by (simp add: coordinatorMain_def processExit_def)
  have d: "workerPrinted (workerStep False (TscExit (Some 127)) (workerMain False))
       = [TscStarting, MainFailed (ProcessExited (Some 127))]"
    by (simp add: worker_eval)
  from startup_errors [OF a b, of "\<lambda>name. Inr ''/proj/node_modules/.bin/tsx''" "Some 4242"
      "[''-w'']" False] a c d
  show ?thesis by simp
qed

end
